theory Spec2Isabelle
  imports Main
begin

section \<open>The HDF5 tomography saver (savu/plugins/savers/hdf5_tomo_saver.py)\<close>

text \<open>
  A shallow embedding of \<^verbatim>\<open>Hdf5TomoSaver\<close>. The saver talks to three collaborators
  that are not part of the class: the h5py library (container files), the experiment
  object \<^verbatim>\<open>self.exp\<close> (its barrier, its meta data and the master index file) and the
  chunk planner \<^verbatim>\<open>Chunking\<close>. The files are modelled as trees of nodes addressed by
  paths, the barrier as an event of a trace, and the chunk planner as a parameter.

  Conventions of the model: a name given to h5py (a group name, an axis label, a
  pattern, a meta data key) is one component of a path; the handles \<^verbatim>\<open>data.group\<close>
  and \<^verbatim>\<open>data.data\<close> are paths that are resolved in the file \<^verbatim>\<open>data.backing_file\<close>
  refers to; arrays are one-dimensional with integer elements; a call of h5py that
  raises changes nothing, and the exception leaves the saver with all earlier
  changes in place; a file object that has been closed refuses every call and every
  read of \<^verbatim>\<open>.filename\<close> and \<^verbatim>\<open>.mode\<close> with a \<^verbatim>\<open>ValueError\<close>; h5py has no
  element type for numpy's arrays of objects (\<^verbatim>\<open>TypeError\<close>).
\<close>

subsection \<open>Container files\<close>

type_synonym path = "string list"
type_synonym dtype = string

text \<open>Python values that reach the saver through the meta data dictionary.\<close>

datatype pyval =
    PyList "int list"
  | NdArray dtype "int list"
  | PyScalar int

datatype attr_val = AttrStr string | AttrInt int | AttrStrs "string list"

text \<open>
  A dataset carries its shape, element type, chunk shape (\<open>None\<close> is a contiguous
  layout) and its elements; an external link carries a file name and an in-file path.
\<close>

datatype node =
    Group
  | Dataset "nat list" dtype "nat list option" "int list"
  | ExternalLink string string

record h5contents =
  nodes :: "path \<Rightarrow> node option"
  attrs :: "path \<times> string \<Rightarrow> attr_val option"

datatype error =
    IOError | KeyError | ValueError | TypeError | AttributeError | IndexError
  | LinkTypeNotKnown

text \<open>A freshly created file holds the root group only.\<close>

definition h5_empty :: h5contents where
  "h5_empty = \<lparr>nodes = [[] \<mapsto> Group], attrs = Map.empty\<rparr>"

text \<open>\<^verbatim>\<open>parent[nm]\<close>: the handle of an existing member, \<^verbatim>\<open>KeyError\<close> otherwise.\<close>

definition h5_getitem :: "path \<Rightarrow> string \<Rightarrow> h5contents \<Rightarrow> error + path" where
  "h5_getitem parent nm f =
     (case nodes f (parent @ [nm]) of
        None \<Rightarrow> Inl KeyError
      | Some _ \<Rightarrow> Inr (parent @ [nm]))"

text \<open>\<^verbatim>\<open>parent.create_group(nm)\<close> refuses a name that is already taken.\<close>

definition h5_create_group :: "path \<Rightarrow> string \<Rightarrow> h5contents \<Rightarrow> error + h5contents" where
  "h5_create_group parent nm f =
     (if nodes f parent \<noteq> Some Group then Inl KeyError
      else if nodes f (parent @ [nm]) \<noteq> None then Inl ValueError
      else Inr (f\<lparr>nodes := (nodes f)(parent @ [nm] \<mapsto> Group)\<rparr>))"

text \<open>\<^verbatim>\<open>parent.require_group(nm)\<close> returns the existing group or creates it.\<close>

definition h5_require_group :: "path \<Rightarrow> string \<Rightarrow> h5contents \<Rightarrow> error + h5contents" where
  "h5_require_group parent nm f =
     (if nodes f parent \<noteq> Some Group then Inl KeyError
      else (case nodes f (parent @ [nm]) of
              None \<Rightarrow> Inr (f\<lparr>nodes := (nodes f)(parent @ [nm] \<mapsto> Group)\<rparr>)
            | Some Group \<Rightarrow> Inr f
            | Some _ \<Rightarrow> Inl TypeError))"

text \<open>
  \<^verbatim>\<open>parent.create_dataset(nm, shape, dtype, chunks=...)\<close>: a new dataset filled with
  the default value 0.
\<close>

definition h5_create_dataset ::
  "path \<Rightarrow> string \<Rightarrow> nat list \<Rightarrow> dtype \<Rightarrow> nat list option \<Rightarrow> h5contents \<Rightarrow> error + h5contents" where
  "h5_create_dataset parent nm shape dt chunks f =
     (if nodes f parent \<noteq> Some Group then Inl KeyError
      else if dt = ''object'' then Inl TypeError
      else if nodes f (parent @ [nm]) \<noteq> None then Inl ValueError
      else Inr (f\<lparr>nodes := (nodes f)(parent @ [nm] \<mapsto>
                  Dataset shape dt chunks (replicate (prod_list shape) 0))\<rparr>))"

text \<open>\<^verbatim>\<open>dset[...] = elems\<close> overwrites the elements of an existing dataset.\<close>

definition h5_write_dataset :: "path \<Rightarrow> int list \<Rightarrow> h5contents \<Rightarrow> error + h5contents" where
  "h5_write_dataset p elems f =
     (case nodes f p of
        Some (Dataset shape dt chunks _) \<Rightarrow>
          Inr (f\<lparr>nodes := (nodes f)(p \<mapsto> Dataset shape dt chunks elems)\<rparr>)
      | _ \<Rightarrow> Inl KeyError)"

text \<open>
  The element type numpy gives to a sequence of Python integers, in \<^verbatim>\<open>np.array(list)\<close>
  and in the \<^verbatim>\<open>numpy.asarray\<close> that h5py applies to \<^verbatim>\<open>data=value\<close>. Each integer
  is a signed 64-bit integer when it fits, an unsigned one when it fits that only, and
  a Python object otherwise; the array has the common type of its elements, which is
  \<^verbatim>\<open>float64\<close> for signed and unsigned together and for no element at all.
\<close>

definition fits_int64 :: "int \<Rightarrow> bool" where
  "fits_int64 x = (- (2 ^ 63) \<le> x \<and> x < 2 ^ 63)"

definition fits_uint64 :: "int \<Rightarrow> bool" where
  "fits_uint64 x = (2 ^ 63 \<le> x \<and> x < 2 ^ 64)"

definition np_dtype :: "int list \<Rightarrow> dtype" where
  "np_dtype xs =
     (if xs = [] then ''float64''
      else if list_ex (\<lambda>x. x < - (2 ^ 63) \<or> 2 ^ 64 \<le> x) xs then ''object''
      else if list_all fits_int64 xs then ''int64''
      else if list_all fits_uint64 xs then ''uint64''
      else ''float64'')"

text \<open>The number of binary digits of a natural number.\<close>

fun bitlen :: "nat \<Rightarrow> nat" where
  "bitlen n = (if n = 0 then 0 else Suc (bitlen (n div 2)))"

text \<open>
  The double nearest to an integer, the even one of two nearest: the integer is cut to
  its 53 leading binary digits.
\<close>

definition round_f64 :: "int \<Rightarrow> int" where
  "round_f64 x =
     (let a = nat \<bar>x\<bar>;
          q = 2 ^ (bitlen a - 53);
          m = a div q;
          r = a mod q;
          m' = (if q < 2 * r \<or> (q = 2 * r \<and> m mod 2 = 1) then m + 1 else m)
      in sgn x * int (m' * q))"

text \<open>The elements of the array: as given, or rounded when the array holds doubles.\<close>

definition np_elems :: "int list \<Rightarrow> int list" where
  "np_elems xs = (if np_dtype xs = ''float64'' then map round_f64 xs else xs)"

text \<open>Shape, element type and elements h5py derives from \<^verbatim>\<open>data=value\<close>.\<close>

fun pyval_shape :: "pyval \<Rightarrow> nat list" where
  "pyval_shape (PyList xs) = [length xs]"
| "pyval_shape (NdArray dt xs) = [length xs]"
| "pyval_shape (PyScalar n) = []"

fun pyval_dtype :: "pyval \<Rightarrow> dtype" where
  "pyval_dtype (PyList xs) = np_dtype xs"
| "pyval_dtype (NdArray dt xs) = dt"
| "pyval_dtype (PyScalar n) = np_dtype [n]"

fun pyval_elems :: "pyval \<Rightarrow> int list" where
  "pyval_elems (PyList xs) = np_elems xs"
| "pyval_elems (NdArray dt xs) = xs"
| "pyval_elems (PyScalar n) = [n]"

text \<open>\<^verbatim>\<open>parent.create_dataset(nm, data=value)\<close>.\<close>

definition h5_create_dataset_from ::
  "path \<Rightarrow> string \<Rightarrow> pyval \<Rightarrow> h5contents \<Rightarrow> error + h5contents" where
  "h5_create_dataset_from parent nm v f =
     (if nodes f parent \<noteq> Some Group then Inl KeyError
      else if pyval_dtype v = ''object'' then Inl TypeError
      else if nodes f (parent @ [nm]) \<noteq> None then Inl ValueError
      else Inr (f\<lparr>nodes := (nodes f)(parent @ [nm] \<mapsto>
                  Dataset (pyval_shape v) (pyval_dtype v) None (pyval_elems v))\<rparr>))"

text \<open>\<^verbatim>\<open>obj.attrs[key] = value\<close> on an existing node.\<close>

definition h5_set_attr :: "path \<Rightarrow> string \<Rightarrow> attr_val \<Rightarrow> h5contents \<Rightarrow> error + h5contents" where
  "h5_set_attr p key v f =
     (if nodes f p = None then Inl KeyError
      else Inr (f\<lparr>attrs := (attrs f)((p, key) \<mapsto> v)\<rparr>))"

text \<open>
  \<^verbatim>\<open>parent[nm] = h5py.ExternalLink(filename, target)\<close>: h5py refuses a name that is
  already taken.
\<close>

definition h5_set_link :: "path \<Rightarrow> string \<Rightarrow> string \<Rightarrow> string \<Rightarrow> h5contents \<Rightarrow> error + h5contents" where
  "h5_set_link parent nm fname target f =
     (if nodes f parent \<noteq> Some Group then Inl KeyError
      else if nodes f (parent @ [nm]) \<noteq> None then Inl ValueError
      else Inr (f\<lparr>nodes := (nodes f)(parent @ [nm] \<mapsto> ExternalLink fname target)\<rparr>))"

text \<open>The \<^verbatim>\<open>.name\<close> of a node: its absolute path, \<^verbatim>\<open>/a/b\<close>.\<close>

definition h5_name :: "path \<Rightarrow> string" where
  "h5_name p = (if p = [] then ''/'' else concat (map (\<lambda>s. ''/'' @ s) p))"

text \<open>\<^verbatim>\<open>s.split('/')[-1]\<close>: what follows the last slash.\<close>

definition split_last :: "string \<Rightarrow> string" where
  "split_last s = rev (takeWhile (\<lambda>c. c \<noteq> CHR ''/'') (rev s))"

subsection \<open>The experiment, the descriptor and the trace\<close>

text \<open>
  The operations the saver issues between barriers, one kind per store operation:
  opening a file, creating the group, planning chunks, creating the data array, the
  three metadata writes, registering the link and closing.
\<close>

datatype opkind =
    OpOpen | OpCreateGroup | OpPlanChunks | OpCreateDataset
  | OpAxisLabels | OpPatterns | OpMetaDict | OpLink | OpClose

datatype event = Barrier | Coll opkind

text \<open>
  An \<^verbatim>\<open>h5py.File\<close> object: \<^verbatim>\<open>.filename\<close> and \<^verbatim>\<open>.mode\<close> (\<^verbatim>\<open>r\<close> or \<^verbatim>\<open>r+\<close>), and
  whether it is still open. A closed file object stays where it is referred to.
\<close>

record h5file =
  filename :: string
  mode :: string
  is_open :: bool

text \<open>
  \<^verbatim>\<open>self.exp\<close> together with the file system: the files on disk by name, the master
  index \<^verbatim>\<open>exp.nxs_file\<close>, the meta data entries \<^verbatim>\<open>mpi\<close> and \<^verbatim>\<open>group_name\<close>, the
  calls of \<^verbatim>\<open>exp._barrier()\<close> and of h5py in the order they happen, and the log.
\<close>

record exp_state =
  disk :: "string \<Rightarrow> h5contents option"
  nxs_file :: h5contents
  mpi :: bool
  exp_group_name :: "string \<Rightarrow> string option"
  exp_filename :: "string \<Rightarrow> string option"
  trace :: "event list"
  logs :: "string list"

text \<open>
  The descriptor \<^verbatim>\<open>data\<close>. \<open>d_name\<close> is the attribute \<^verbatim>\<open>data.name\<close>, \<open>None\<close> when the
  object has no such attribute (the \<^verbatim>\<open>AttributeError\<close> that \<^verbatim>\<open>__create_entries\<close>
  catches); \<open>d_get_name\<close> is \<^verbatim>\<open>data.get_name()\<close>. The entries of \<^verbatim>\<open>data.data_info\<close>
  are the fields \<open>info_*\<close>; a dictionary is the list of its items, an axis label the
  pair of its single key and value. \<open>d_group\<close> and \<open>d_data\<close> are handles into the
  backing file.
\<close>

record data_obj =
  d_name :: "string option"
  d_get_name :: string
  d_shape :: "nat list"
  d_dtype :: dtype
  d_remove :: bool
  d_backing_file :: "h5file option"
  d_group_name :: "string option"
  d_group :: "path option"
  d_data :: "path option"
  info_group_name :: "string option"
  info_name :: string
  info_axis_labels :: "(string \<times> string) list"
  info_data_patterns :: "(string \<times> nat list \<times> nat list) list"
  d_meta_data :: "(string \<times> pyval) list"

type_synonym sd = "exp_state \<times> data_obj"

text \<open>
  A method of the saver maps the state to a result and the state it leaves behind; an
  exception keeps every mutation made before it was raised.
\<close>

type_synonym 'a action = "sd \<Rightarrow> (error + 'a) \<times> sd"

definition andthen :: "'a action \<Rightarrow> ('a \<Rightarrow> 'b action) \<Rightarrow> 'b action" where
  "andthen m f s = (case m s of (Inl e, s') \<Rightarrow> (Inl e, s') | (Inr a, s') \<Rightarrow> f a s')"

definition ret :: "'a \<Rightarrow> 'a action" where
  "ret a s = (Inr a, s)"

definition raise :: "error \<Rightarrow> 'a action" where
  "raise e s = (Inl e, s)"

text \<open>Reading the state: a value or an exception, the state unchanged.\<close>

definition reading :: "(sd \<Rightarrow> error + 'a) \<Rightarrow> 'a action" where
  "reading g s = (g s, s)"

text \<open>Assigning to attributes of the descriptor.\<close>

definition update_data :: "(data_obj \<Rightarrow> data_obj) \<Rightarrow> unit action" where
  "update_data u s = (Inr (), (fst s, u (snd s)))"

definition barrier :: "unit action" where
  "barrier s = (Inr (), ((fst s)\<lparr>trace := trace (fst s) @ [Barrier]\<rparr>, snd s))"

definition emit :: "opkind \<Rightarrow> unit action" where
  "emit k s = (Inr (), ((fst s)\<lparr>trace := trace (fst s) @ [Coll k]\<rparr>, snd s))"

definition logging :: "string \<Rightarrow> unit action" where
  "logging msg s = (Inr (), ((fst s)\<lparr>logs := logs (fst s) @ [msg]\<rparr>, snd s))"

text \<open>The contents of the file behind \<^verbatim>\<open>data.backing_file\<close>.\<close>

definition backing_contents :: "sd \<Rightarrow> h5contents option" where
  "backing_contents s =
     (case d_backing_file (snd s) of
        None \<Rightarrow> None
      | Some h \<Rightarrow> disk (fst s) (filename h))"

text \<open>
  \<^verbatim>\<open>data.backing_file.filename\<close> and \<^verbatim>\<open>data.backing_file.mode\<close>: \<^verbatim>\<open>None\<close> has no
  such attribute, a closed file object refuses the read.
\<close>

definition file_attr :: "(h5file \<Rightarrow> 'a) \<Rightarrow> sd \<Rightarrow> error + 'a" where
  "file_attr f s =
     (case d_backing_file (snd s) of
        None \<Rightarrow> Inl AttributeError
      | Some h \<Rightarrow> if is_open h then Inr (f h) else Inl ValueError)"

text \<open>
  A mutation of the descriptor's backing file through one of its handles. Without a
  file object there is no handle to call (\<^verbatim>\<open>AttributeError\<close>); h5py refuses to use
  a closed file and to write to a file opened read-only. The call is recorded in the
  trace when it succeeds.
\<close>

definition backing_write :: "opkind \<Rightarrow> (h5contents \<Rightarrow> error + h5contents) \<Rightarrow> unit action" where
  "backing_write k op s =
     (case d_backing_file (snd s) of
        None \<Rightarrow> (Inl AttributeError, s)
      | Some h \<Rightarrow>
          if \<not> is_open h then (Inl ValueError, s)
          else if mode h = ''r'' then (Inl ValueError, s)
          else (case disk (fst s) (filename h) of
                  None \<Rightarrow> (Inl IOError, s)
                | Some c \<Rightarrow>
                    (case op c of
                       Inl e \<Rightarrow> (Inl e, s)
                     | Inr c' \<Rightarrow>
                         (Inr (), ((fst s)\<lparr>disk := (disk (fst s))(filename h \<mapsto> c'),
                                          trace := trace (fst s) @ [Coll k]\<rparr>, snd s)))))"

text \<open>A mutation of the master index file \<^verbatim>\<open>exp.nxs_file\<close>.\<close>

definition master_write :: "opkind \<Rightarrow> (h5contents \<Rightarrow> error + h5contents) \<Rightarrow> unit action" where
  "master_write k op s =
     (case op (nxs_file (fst s)) of
        Inl e \<Rightarrow> (Inl e, s)
      | Inr c' \<Rightarrow> (Inr (), ((fst s)\<lparr>nxs_file := c', trace := trace (fst s) @ [Coll k]\<rparr>, snd s)))"

text \<open>\<^verbatim>\<open>data.backing_file[nm]\<close>; subscripting \<^verbatim>\<open>None\<close> is a \<^verbatim>\<open>TypeError\<close>.\<close>

definition backing_getitem :: "string \<Rightarrow> path action" where
  "backing_getitem nm =
     reading (\<lambda>s. case d_backing_file (snd s) of
                     None \<Rightarrow> Inl TypeError
                   | Some h \<Rightarrow>
                       if \<not> is_open h then Inl ValueError
                       else (case disk (fst s) (filename h) of
                               None \<Rightarrow> Inl IOError
                             | Some c \<Rightarrow> h5_getitem [] nm c))"

subsection \<open>Opening and creating\<close>

text \<open>
  \<^verbatim>\<open>h5py.File(filename, mode)\<close>: mode \<^verbatim>\<open>w\<close> creates the file and truncates an
  existing one, mode \<^verbatim>\<open>r\<close> needs the file to exist. The saver uses no other mode.
  The result is a Python reference, \<open>None\<close> standing for \<^verbatim>\<open>None\<close>; the constructor
  returns a file object or raises.
\<close>

definition h5py_File :: "string \<Rightarrow> string \<Rightarrow> h5file option action" where
  "h5py_File fname md s =
     (if md = ''w'' then
        (Inr (Some \<lparr>filename = fname, mode = ''r+'', is_open = True\<rparr>),
         ((fst s)\<lparr>disk := (disk (fst s))(fname \<mapsto> h5_empty),
                  trace := trace (fst s) @ [Coll OpOpen]\<rparr>, snd s))
      else if md = ''r'' then
        (case disk (fst s) fname of
           None \<Rightarrow> (Inl IOError, s)
         | Some c \<Rightarrow>
             (Inr (Some \<lparr>filename = fname, mode = ''r'', is_open = True\<rparr>),
              ((fst s)\<lparr>trace := trace (fst s) @ [Coll OpOpen]\<rparr>, snd s)))
      else (Inl ValueError, s))"

text \<open>
  \<^verbatim>\<open>__open_backing_h5\<close>. With \<^verbatim>\<open>mpi\<close> the file is opened with the literal mode
  \<^verbatim>\<open>'w'\<close>, whatever \<open>md\<close> is. The test \<^verbatim>\<open>backing_file is None\<close> comes after
  the second barrier.
\<close>

definition open_backing_h5 :: "string \<Rightarrow> string \<Rightarrow> h5file action" where
  "open_backing_h5 fname md =
     andthen barrier (\<lambda>_.
     andthen (\<lambda>s. if mpi (fst s) then h5py_File fname ''w'' s else h5py_File fname md s)
       (\<lambda>backing_file.
     andthen barrier (\<lambda>_.
     case backing_file of
       None \<Rightarrow> raise IOError
     | Some bf \<Rightarrow> ret bf)))"

text \<open>
  The argument \<^verbatim>\<open>current_and_next\<close> of \<^verbatim>\<open>__create_entries\<close>: the integer 0 of the
  default list, or a hint for the chunk planner.
\<close>

datatype 'h current_and_next = IntZero | Hint 'h

text \<open>
  The two branches of \<^verbatim>\<open>if current_and_next is 0\<close>, with \<open>calculate_chunking\<close>
  standing for \<^verbatim>\<open>Chunking(exp, current_and_next)._calculate_chunking\<close>.
\<close>

fun create_data ::
  "('h \<Rightarrow> nat list \<Rightarrow> dtype \<Rightarrow> nat list) \<Rightarrow> 'h current_and_next \<Rightarrow> string \<Rightarrow> nat list \<Rightarrow> dtype \<Rightarrow> unit action" where
  "create_data calculate_chunking IntZero group_name shape dt =
     backing_write OpCreateDataset (h5_create_dataset [group_name] ''data'' shape dt None)"
| "create_data calculate_chunking (Hint h) group_name shape dt =
     andthen barrier (\<lambda>_.
     andthen (emit OpPlanChunks) (\<lambda>_.
     andthen (ret (calculate_chunking h shape dt)) (\<lambda>chunks.
     andthen barrier (\<lambda>_.
     backing_write OpCreateDataset
       (h5_create_dataset [group_name] ''data'' shape dt (Some chunks))))))"

text \<open>\<^verbatim>\<open>__create_entries\<close>; it returns \<^verbatim>\<open>(group_name, group)\<close>.\<close>

definition create_entries ::
  "('h \<Rightarrow> nat list \<Rightarrow> dtype \<Rightarrow> nat list) \<Rightarrow> string \<Rightarrow> 'h current_and_next \<Rightarrow> (string \<times> path) action" where
  "create_entries calculate_chunking key cn =
     andthen barrier (\<lambda>_.
     andthen (reading (\<lambda>s. case exp_group_name (fst s) key of
                             None \<Rightarrow> Inl KeyError
                           | Some g \<Rightarrow> Inr g)) (\<lambda>group_name0.
     andthen (update_data (\<lambda>d. d\<lparr>info_group_name := Some group_name0\<rparr>)) (\<lambda>_.
     andthen (reading (\<lambda>s. Inr (case d_name (snd s) of
                                  None \<Rightarrow> group_name0
                                | Some n \<Rightarrow> group_name0 @ ''_'' @ n))) (\<lambda>group_name.
     andthen (backing_write OpCreateGroup (h5_create_group [] group_name)) (\<lambda>_.
     andthen (backing_write OpCreateGroup
                (h5_set_attr [group_name] ''NX_class'' (AttrStr ''NXdata''))) (\<lambda>_.
     andthen (backing_write OpCreateGroup
                (h5_set_attr [group_name] ''signal'' (AttrStr ''data''))) (\<lambda>_.
     andthen barrier (\<lambda>_.
     andthen (reading (\<lambda>s. Inr (d_shape (snd s), d_dtype (snd s)))) (\<lambda>sh.
     andthen (create_data calculate_chunking cn group_name (fst sh) (snd sh)) (\<lambda>_.
     andthen (update_data (\<lambda>d. d\<lparr>d_data := Some [group_name, ''data'']\<rparr>)) (\<lambda>_.
     andthen barrier (\<lambda>_.
     ret (group_name, [group_name])))))))))))))"

text \<open>
  The body of the loop of \<^verbatim>\<open>setup\<close> for one output dataset: the file named by the
  experiment for \<open>key\<close> is created and the group and the data array are allocated.
\<close>

definition setup_one ::
  "('h \<Rightarrow> nat list \<Rightarrow> dtype \<Rightarrow> nat list) \<Rightarrow> string \<Rightarrow> 'h current_and_next \<Rightarrow> unit action" where
  "setup_one calculate_chunking key cn =
     andthen (reading (\<lambda>s. case exp_filename (fst s) key of
                             None \<Rightarrow> Inl KeyError
                           | Some f \<Rightarrow> Inr f)) (\<lambda>fname.
     andthen (logging ''creating the backing file'') (\<lambda>_.
     andthen (open_backing_h5 fname ''w'') (\<lambda>bf.
     andthen (update_data (\<lambda>d. d\<lparr>d_backing_file := Some bf\<rparr>)) (\<lambda>_.
     andthen (create_entries calculate_chunking key cn) (\<lambda>g.
     update_data (\<lambda>d. d\<lparr>d_group_name := Some (fst g), d_group := Some (snd g)\<rparr>))))))"

subsection \<open>Writing the metadata\<close>

text \<open>
  \<^verbatim>\<open>np.arange(data.get_shape()[count])\<close>, an \<^verbatim>\<open>IndexError\<close> when the shape has no
  such axis.
\<close>

definition arange_axis :: "nat list \<Rightarrow> nat \<Rightarrow> error + pyval" where
  "arange_axis shape count =
     (if count < length shape then Inr (NdArray ''int64'' (map int [0..<shape ! count]))
      else Inl IndexError)"

text \<open>\<^verbatim>\<open>if isinstance(mData, list): mData = np.array(mData)\<close>.\<close>

fun as_array :: "pyval \<Rightarrow> pyval" where
  "as_array (PyList xs) = NdArray (np_dtype xs) (np_elems xs)"
| "as_array v = v"

text \<open>Reading \<^verbatim>\<open>.shape\<close> and \<^verbatim>\<open>.dtype\<close> needs an array.\<close>

fun has_shape :: "pyval \<Rightarrow> bool" where
  "has_shape (NdArray dt xs) = True"
| "has_shape v = False"

text \<open>
  The loop of \<^verbatim>\<open>__output_axis_labels\<close>, \<open>count\<close> being the index of the first label
  of the list. A label without a meta data entry (\<^verbatim>\<open>KeyError\<close>) gets the index
  range of its axis. The attributes go to \<open>entry\<close>, the label arrays into
  \<^verbatim>\<open>data.group\<close>.
\<close>

fun output_axis_labels_loop :: "(string \<times> string) list \<Rightarrow> nat \<Rightarrow> path \<Rightarrow> unit action" where
  "output_axis_labels_loop [] count entry = ret ()"
| "output_axis_labels_loop (labels # rest) count entry =
     andthen (backing_write OpAxisLabels
                (h5_set_attr entry (fst labels @ ''_indices'') (AttrInt (int count)))) (\<lambda>_.
     andthen (reading (\<lambda>s. case map_of (d_meta_data (snd s)) (fst labels) of
                             Some v \<Rightarrow> Inr v
                           | None \<Rightarrow> arange_axis (d_shape (snd s)) count)) (\<lambda>mData0.
     andthen (ret (as_array mData0)) (\<lambda>mData.
     andthen (reading (\<lambda>s. case d_group (snd s) of
                             None \<Rightarrow> Inl AttributeError
                           | Some g \<Rightarrow> if has_shape mData then Inr g else Inl AttributeError)) (\<lambda>g.
     andthen (backing_write OpAxisLabels
                (h5_create_dataset g (fst labels) (pyval_shape mData) (pyval_dtype mData) None)) (\<lambda>_.
     andthen (backing_write OpAxisLabels
                (h5_write_dataset (g @ [fst labels]) (pyval_elems mData))) (\<lambda>_.
     andthen (backing_write OpAxisLabels
                (h5_set_attr (g @ [fst labels]) ''units'' (AttrStr (snd labels)))) (\<lambda>_.
     output_axis_labels_loop rest (Suc count) entry)))))))"

text \<open>\<^verbatim>\<open>__output_axis_labels\<close>.\<close>

definition output_axis_labels :: "path \<Rightarrow> unit action" where
  "output_axis_labels entry =
     andthen barrier (\<lambda>_.
     andthen (reading (\<lambda>s. Inr (info_axis_labels (snd s)))) (\<lambda>axis_labels.
     andthen (output_axis_labels_loop axis_labels 0 entry) (\<lambda>_.
     andthen (backing_write OpAxisLabels
                (h5_set_attr entry ''axes'' (AttrStrs (map fst axis_labels)))) (\<lambda>_.
     barrier))))"

text \<open>
  The loop of \<^verbatim>\<open>__output_data_patterns\<close>; a pattern is its name with the values of
  \<^verbatim>\<open>core_dir\<close> and \<^verbatim>\<open>slice_dir\<close>, \<open>entry\<close> is the group \<^verbatim>\<open>patterns\<close>.
\<close>

fun output_data_patterns_loop :: "(string \<times> nat list \<times> nat list) list \<Rightarrow> path \<Rightarrow> unit action" where
  "output_data_patterns_loop [] entry = ret ()"
| "output_data_patterns_loop (pattern # rest) entry =
     andthen (backing_write OpPatterns (h5_create_group entry (fst pattern))) (\<lambda>_.
     andthen (backing_write OpPatterns
                (h5_set_attr (entry @ [fst pattern]) ''NX_class'' (AttrStr ''NXparameters''))) (\<lambda>_.
     andthen (backing_write OpPatterns
                (h5_create_dataset_from (entry @ [fst pattern]) ''core_dir''
                   (PyList (map int (fst (snd pattern)))))) (\<lambda>_.
     andthen (backing_write OpPatterns
                (h5_create_dataset_from (entry @ [fst pattern]) ''slice_dir''
                   (PyList (map int (snd (snd pattern)))))) (\<lambda>_.
     output_data_patterns_loop rest entry))))"

text \<open>\<^verbatim>\<open>__output_data_patterns\<close>.\<close>

definition output_data_patterns :: "path \<Rightarrow> unit action" where
  "output_data_patterns entry =
     andthen barrier (\<lambda>_.
     andthen (logging ''Outputting data patterns to file'') (\<lambda>_.
     andthen (reading (\<lambda>s. Inr (info_data_patterns (snd s)))) (\<lambda>data_patterns.
     andthen (backing_write OpPatterns (h5_create_group entry ''patterns'')) (\<lambda>_.
     andthen (backing_write OpPatterns
                (h5_set_attr (entry @ [''patterns'']) ''NX_class'' (AttrStr ''NXcollection''))) (\<lambda>_.
     andthen (output_data_patterns_loop data_patterns (entry @ [''patterns''])) (\<lambda>_.
     barrier))))))"

text \<open>The loop of \<^verbatim>\<open>__output_metadata_dict\<close>, \<open>entry\<close> being the group \<^verbatim>\<open>meta_data\<close>.\<close>

fun output_metadata_dict_loop :: "(string \<times> pyval) list \<Rightarrow> path \<Rightarrow> unit action" where
  "output_metadata_dict_loop [] entry = ret ()"
| "output_metadata_dict_loop (mData # rest) entry =
     andthen (backing_write OpMetaDict (h5_create_group entry (fst mData))) (\<lambda>_.
     andthen (backing_write OpMetaDict
                (h5_set_attr (entry @ [fst mData]) ''NX_class'' (AttrStr ''NXdata''))) (\<lambda>_.
     andthen (backing_write OpMetaDict
                (h5_create_dataset_from (entry @ [fst mData]) (fst mData) (snd mData))) (\<lambda>_.
     output_metadata_dict_loop rest entry)))"

text \<open>\<^verbatim>\<open>__output_metadata_dict\<close>.\<close>

definition output_metadata_dict :: "path \<Rightarrow> unit action" where
  "output_metadata_dict entry =
     andthen barrier (\<lambda>_.
     andthen (logging ''Outputting meta data dictionary to file'') (\<lambda>_.
     andthen (reading (\<lambda>s. Inr (d_meta_data (snd s)))) (\<lambda>meta_data.
     andthen (backing_write OpMetaDict (h5_create_group entry ''meta_data'')) (\<lambda>_.
     andthen (backing_write OpMetaDict
                (h5_set_attr (entry @ [''meta_data'']) ''NX_class'' (AttrStr ''NXcollection''))) (\<lambda>_.
     andthen (output_metadata_dict_loop meta_data (entry @ [''meta_data''])) (\<lambda>_.
     barrier))))))"

text \<open>\<^verbatim>\<open>__output_metadata\<close>.\<close>

definition output_metadata :: "path \<Rightarrow> unit action" where
  "output_metadata entry =
     andthen (output_axis_labels entry) (\<lambda>_.
     andthen (output_data_patterns entry) (\<lambda>_.
     output_metadata_dict entry))"

subsection \<open>Closing, linking and reopening\<close>

text \<open>
  \<^verbatim>\<open>data.backing_file.close()\<close>. \<open>close_ok\<close> is the outcome of the call: it returns
  and the file object is closed from then on, or it raises.
\<close>

definition h5_close :: "bool \<Rightarrow> unit action" where
  "h5_close close_ok =
     andthen (emit OpClose) (\<lambda>_.
     if close_ok then
       update_data (\<lambda>d. d\<lparr>d_backing_file :=
                              map_option (\<lambda>h. h\<lparr>is_open := False\<rparr>) (d_backing_file d)\<rparr>)
     else raise IOError)"

text \<open>
  The body of the \<^verbatim>\<open>try\<close> block of \<^verbatim>\<open>_close_file\<close>: the file is closed, its
  \<^verbatim>\<open>.filename\<close> is read for the log message, and the handle is reset.
\<close>

definition close_and_reset :: "bool \<Rightarrow> unit action" where
  "close_and_reset close_ok =
     andthen (h5_close close_ok) (\<lambda>_.
     andthen (reading (file_attr filename)) (\<lambda>fname.
     andthen (logging ''File close successful'') (\<lambda>_.
     update_data (\<lambda>d. d\<lparr>d_backing_file := None\<rparr>))))"

text \<open>
  The \<^verbatim>\<open>try\<close> block with its bare \<^verbatim>\<open>except\<close>, which logs and passes whatever
  the body raised and keeps what the body had done until then.
\<close>

definition try_close :: "bool \<Rightarrow> unit action" where
  "try_close close_ok s =
     (case close_and_reset close_ok s of
        (Inl e, s') \<Rightarrow> logging ''File close unsuccessful'' s'
      | (Inr u, s') \<Rightarrow> (Inr u, s'))"

text \<open>\<^verbatim>\<open>_close_file\<close>.\<close>

definition close_file :: "bool \<Rightarrow> unit action" where
  "close_file close_ok =
     andthen barrier (\<lambda>_.
     andthen (logging ''Trying to close the file the file'') (\<lambda>_.
     andthen (\<lambda>s. case d_backing_file (snd s) of
                     None \<Rightarrow> ret () s
                   | Some h \<Rightarrow> try_close close_ok s) (\<lambda>_.
     barrier)))"

text \<open>
  The branches of \<^verbatim>\<open>__add_data_links\<close> on the link type. The tests
  \<^verbatim>\<open>linkType is 'final_result'\<close> compare with literals, which Python interns: they
  are modelled by equality of strings.
\<close>

definition register_link :: "string \<Rightarrow> path \<Rightarrow> string \<Rightarrow> unit action" where
  "register_link linkType entry fname =
     (if linkType = ''final_result'' then
        andthen (reading (\<lambda>s. Inr (''final_result_'' @ d_get_name (snd s)))) (\<lambda>name.
        andthen (reading (\<lambda>s. case d_group_name (snd s) of
                                None \<Rightarrow> Inl TypeError
                              | Some gn \<Rightarrow> Inr gn)) (\<lambda>gn.
        master_write OpLink (h5_set_link entry name fname gn)))
      else if linkType = ''intermediate'' then
        andthen (reading (\<lambda>s. case d_group_name (snd s) of
                                None \<Rightarrow> Inl TypeError
                              | Some gn \<Rightarrow> Inr (gn @ ''_'' @ info_name (snd s), gn))) (\<lambda>n.
        andthen (master_write OpLink (h5_require_group entry ''intermediate'')) (\<lambda>_.
        andthen (master_write OpLink
                   (h5_set_attr (entry @ [''intermediate'']) ''NX_class''
                      (AttrStr ''NXcollection''))) (\<lambda>_.
        master_write OpLink (h5_set_link (entry @ [''intermediate'']) (fst n) fname (snd n)))))
      else raise LinkTypeNotKnown)"

text \<open>
  \<^verbatim>\<open>__add_data_links\<close>. The metadata is written first; the link type is looked at
  afterwards.
\<close>

definition add_data_links :: "string \<Rightarrow> unit action" where
  "add_data_links linkType =
     andthen barrier (\<lambda>_.
     andthen (logging ''Adding link to file'') (\<lambda>_.
     andthen (reading (\<lambda>s. h5_getitem [] ''entry'' (nxs_file (fst s)))) (\<lambda>entry.
     andthen (reading (\<lambda>s. case info_group_name (snd s) of
                             None \<Rightarrow> Inl KeyError
                           | Some g \<Rightarrow> Inr g)) (\<lambda>group_name.
     andthen (backing_getitem group_name) (\<lambda>bentry.
     andthen (output_metadata bentry) (\<lambda>_.
     andthen (reading (file_attr (\<lambda>h. split_last (filename h)))) (\<lambda>fname.
     andthen (register_link linkType entry fname) (\<lambda>_.
     barrier))))))))"

text \<open>
  \<^verbatim>\<open>if data.remove is True or data.backing_file.mode == 'r': link_type = None\<close>;
  \<open>None\<close> is Python's \<^verbatim>\<open>None\<close>.
\<close>

definition effective_link_type :: "string option \<Rightarrow> sd \<Rightarrow> error + string option" where
  "effective_link_type link_type s =
     (if d_remove (snd s) then Inr None
      else (case file_attr mode s of
              Inl e \<Rightarrow> Inl e
            | Inr m \<Rightarrow> Inr (if m = ''r'' then None else link_type)))"

text \<open>
  \<^verbatim>\<open>_save_data\<close>. The result is \<open>None\<close> for the bare \<^verbatim>\<open>return\<close> and
  \<open>Some (entry, filename)\<close> otherwise.
\<close>

definition save_data :: "bool \<Rightarrow> string option \<Rightarrow> (string \<times> string) option action" where
  "save_data close_ok link_type0 =
     andthen barrier (\<lambda>_.
     andthen (logging ''Saving the data to the hdf5 file'') (\<lambda>_.
     andthen (reading (effective_link_type link_type0)) (\<lambda>link_type.
     case link_type of
       None \<Rightarrow> andthen (close_file close_ok) (\<lambda>_. ret None)
     | Some lt \<Rightarrow>
         andthen (add_data_links lt) (\<lambda>_.
         andthen (reading (file_attr filename)) (\<lambda>fname.
         andthen (reading (\<lambda>s. case d_data (snd s) of
                                 None \<Rightarrow> Inl AttributeError
                               | Some p \<Rightarrow> Inr (h5_name p))) (\<lambda>entry.
         andthen (close_file close_ok) (\<lambda>_.
         andthen barrier (\<lambda>_.
         ret (Some (entry, fname))))))))))"

text \<open>The components of an absolute path \<^verbatim>\<open>/a/b\<close>.\<close>

fun split_path_aux :: "string \<Rightarrow> string \<Rightarrow> path" where
  "split_path_aux acc [] = (if acc = [] then [] else [rev acc])"
| "split_path_aux acc (c # cs) =
     (if c = CHR ''/'' then (if acc = [] then [] else [rev acc]) @ split_path_aux [] cs
      else split_path_aux (c # acc) cs)"

definition split_path :: "string \<Rightarrow> path" where
  "split_path s = split_path_aux [] s"

text \<open>\<^verbatim>\<open>data.backing_file[entry]\<close> for an absolute path.\<close>

definition backing_getitem_path :: "string \<Rightarrow> path action" where
  "backing_getitem_path entry =
     reading (\<lambda>s. case d_backing_file (snd s) of
                     None \<Rightarrow> Inl TypeError
                   | Some h \<Rightarrow>
                       if \<not> is_open h then Inl ValueError
                       else (case disk (fst s) (filename h) of
                               None \<Rightarrow> Inl IOError
                             | Some c \<Rightarrow>
                                 (case nodes c (split_path entry) of
                                    None \<Rightarrow> Inl KeyError
                                  | Some _ \<Rightarrow> Inr (split_path entry))))"

text \<open>\<^verbatim>\<open>_open_read_only\<close>.\<close>

definition open_read_only :: "string \<Rightarrow> string \<Rightarrow> unit action" where
  "open_read_only fname entry =
     andthen (logging ''Re-opening the backing file in read only'') (\<lambda>_.
     andthen (open_backing_h5 fname ''r'') (\<lambda>bf.
     andthen (update_data (\<lambda>d. d\<lparr>d_backing_file := Some bf\<rparr>)) (\<lambda>_.
     andthen (backing_getitem_path entry) (\<lambda>p.
     andthen (update_data (\<lambda>d. d\<lparr>d_data := Some p\<rparr>)) (\<lambda>_.
     barrier)))))"

subsection \<open>A run of the FindPeaks plugin\<close>

text \<open>
  The output dataset \<^verbatim>\<open>Peaks\<close> that \<^verbatim>\<open>FindPeaks.setup\<close> declares: the axis labels
  \<^verbatim>\<open>frames.index\<close> and \<^verbatim>\<open>position.idx\<close> and the patterns \<^verbatim>\<open>CHANNEL\<close> and
  \<^verbatim>\<open>SPECTRUM\<close>, here with two frames of three channels and a meta data entry for the
  positions. The experiment starts with an empty disk and a master index that holds
  the group \<^verbatim>\<open>entry\<close>.
\<close>

definition peaks_exp :: exp_state where
  "peaks_exp =
     \<lparr>disk = Map.empty,
      nxs_file = \<lparr>nodes = [[] \<mapsto> Group, [''entry''] \<mapsto> Group], attrs = Map.empty\<rparr>,
      mpi = False,
      exp_group_name = [''Peaks'' \<mapsto> ''1-Peaks''],
      exp_filename = [''Peaks'' \<mapsto> ''/out/run42.h5''],
      trace = [], logs = []\<rparr>"

definition peaks_data :: data_obj where
  "peaks_data =
     \<lparr>d_name = None, d_get_name = ''Peaks'', d_shape = [2, 3], d_dtype = ''float32'',
      d_remove = False, d_backing_file = None, d_group_name = None, d_group = None,
      d_data = None, info_group_name = None, info_name = ''Peaks'',
      info_axis_labels = [(''frames'', ''index''), (''position'', ''idx'')],
      info_data_patterns = [(''CHANNEL'', [0], [1]), (''SPECTRUM'', [1], [0])],
      d_meta_data = [(''position'', PyList [10, 20, 30])]\<rparr>"

text \<open>A chunk planner that proposes one chunk per frame.\<close>

definition frame_chunks :: "unit \<Rightarrow> nat list \<Rightarrow> dtype \<Rightarrow> nat list" where
  "frame_chunks h shape dt = 1 # tl shape"

text \<open>The state after \<^verbatim>\<open>setup\<close> has run for \<^verbatim>\<open>Peaks\<close>.\<close>

definition peaks_ready :: sd where
  "peaks_ready = snd (setup_one frame_chunks ''Peaks'' IntZero (peaks_exp, peaks_data))"

text \<open>
  The state in which \<^verbatim>\<open>setup\<close> calls \<^verbatim>\<open>__create_entries\<close> for \<^verbatim>\<open>Peaks\<close>: the
  backing file has just been created and is open for writing.
\<close>

definition peaks_opened :: sd where
  "peaks_opened =
     (peaks_exp\<lparr>disk := [''/out/run42.h5'' \<mapsto> h5_empty]\<rparr>,
      peaks_data\<lparr>d_backing_file := Some \<lparr>filename = ''/out/run42.h5'', mode = ''r+'', is_open = True\<rparr>\<rparr>)"

text \<open>
  The same state with a number under the name of the label \<^verbatim>\<open>position\<close> in the
  meta data dictionary.
\<close>

definition peaks_scalar :: sd where
  "peaks_scalar = (fst peaks_ready, (snd peaks_ready)\<lparr>d_meta_data := [(''position'', PyScalar 7)]\<rparr>)"

subsection \<open>The label array asked for\<close>

text \<open>
  What the specification asks \<^verbatim>\<open>__output_axis_labels\<close> to write for the label
  \<open>name\<close> of axis \<open>i\<close>: the meta data value of that name, a plain list turned into
  an array, and otherwise the ascending indices of the axis.
\<close>

definition spec_label_array :: "data_obj \<Rightarrow> nat \<Rightarrow> string \<Rightarrow> pyval" where
  "spec_label_array d i name =
     (case map_of (d_meta_data d) name of
        Some (PyList xs) \<Rightarrow> NdArray (np_dtype xs) (np_elems xs)
      | Some v \<Rightarrow> v
      | None \<Rightarrow> NdArray ''int64'' (map int [0..<d_shape d ! i]))"

text \<open>
  A label can be written when its meta data value is a list or an array, or when it
  has no such value and the shape has the axis: a value without \<^verbatim>\<open>.shape\<close> and a
  missing axis make \<^verbatim>\<open>__output_axis_labels\<close> raise.
\<close>

definition label_ok :: "data_obj \<Rightarrow> nat \<Rightarrow> string \<Rightarrow> bool" where
  "label_ok d i name =
     (case map_of (d_meta_data d) name of
        Some (PyScalar x) \<Rightarrow> False
      | Some v \<Rightarrow> pyval_dtype v \<noteq> ''object''
      | None \<Rightarrow> i < length (d_shape d))"

subsection \<open>Barrier discipline of a trace\<close>

text \<open>
  Reading a trace from left to right: nothing has synchronised yet, the last event was
  a barrier, or a block of operations of one kind is under way.
\<close>

datatype phase = Unsynced | Synced | Within opkind

text \<open>
  An operation may start a block only right after a barrier and may continue only a
  block of its own kind; a barrier ends whatever block is under way.
\<close>

fun step :: "phase \<Rightarrow> event \<Rightarrow> phase option" where
  "step q Barrier = Some Synced"
| "step Unsynced (Coll k) = None"
| "step Synced (Coll k) = Some (Within k)"
| "step (Within k') (Coll k) = (if k = k' then Some (Within k) else None)"

fun scan :: "phase \<Rightarrow> event list \<Rightarrow> phase option" where
  "scan q [] = Some q"
| "scan q (e # es) = (case step q e of None \<Rightarrow> None | Some q' \<Rightarrow> scan q' es)"

text \<open>
  A trace is bracketed when every block of operations holds operations of one store
  operation only, has a barrier right before its first and right after its last
  operation, and the trace ends with a barrier.
\<close>

definition bracketed :: "event list \<Rightarrow> bool" where
  "bracketed t = (scan Unsynced t = Some Synced)"

text \<open>
  A trace is well begun when it is bracketed but for its end: its last block may
  still be under way, with no barrier after it.
\<close>

definition well_begun :: "event list \<Rightarrow> bool" where
  "well_begun t = (scan Unsynced t \<noteq> None)"

text \<open>
  An action brackets its operations when the events of every call that returns are
  bracketed and the events of every call that raises are well begun.
\<close>

definition brackets :: "'a action \<Rightarrow> bool" where
  "brackets m = (\<forall>s r s'. m s = (r, s') \<longrightarrow>
                   (\<exists>t. trace (fst s') = trace (fst s) @ t \<and>
                        (case r of Inl e \<Rightarrow> well_begun t | Inr a \<Rightarrow> bracketed t)))"

definition synced :: "phase \<Rightarrow> bool" where
  "synced q = (q = Synced)"

definition opened :: "opkind \<Rightarrow> phase \<Rightarrow> bool" where
  "opened k q = (q = Synced \<or> q = Within k)"

text \<open>
  \<open>traces P m Q\<close>: the events of a call of \<open>m\<close> lead the scan from any phase in \<open>P\<close>
  to some phase, which is in \<open>Q\<close> when the call returns.
\<close>

definition traces :: "(phase \<Rightarrow> bool) \<Rightarrow> 'a action \<Rightarrow> (phase \<Rightarrow> bool) \<Rightarrow> bool" where
  "traces P m Q = (\<forall>s r s'. m s = (r, s') \<longrightarrow>
     (\<exists>t. trace (fst s') = trace (fst s) @ t \<and>
          (\<forall>q. P q \<longrightarrow> (\<exists>q'. scan q t = Some q' \<and>
                                  (case r of Inl e \<Rightarrow> True | Inr a \<Rightarrow> Q q')))))"

text \<open>\<open>keeps g m\<close>: no call of \<open>m\<close>, returning or raising, changes the part \<open>g\<close> of the state.\<close>

definition keeps :: "(sd \<Rightarrow> 'x) \<Rightarrow> 'a action \<Rightarrow> bool" where
  "keeps g m = (\<forall>s r s'. m s = (r, s') \<longrightarrow> g s' = g s)"

section \<open>Sequencing\<close>

lemma andthen_Inr:
  "andthen m f s = (Inr b, s') \<longleftrightarrow> (\<exists>a s1. m s = (Inr a, s1) \<and> f a s1 = (Inr b, s'))"
  by (auto simp: andthen_def split: prod.splits sum.splits)

lemma andthen_cases:
  assumes "andthen m f s = (r, s')"
  obtains (fails) e where "m s = (Inl e, s')" and "r = Inl e"
        | (continues) a s1 where "m s = (Inr a, s1)" and "f a s1 = (r, s')"
  using assms by (auto simp: andthen_def split: prod.splits sum.splits)

lemmas run_defs = andthen_def ret_def raise_def reading_def update_data_def barrier_def emit_def
  logging_def backing_write_def master_write_def backing_getitem_def h5py_File_def
  open_backing_h5_def create_entries_def setup_one_def arange_axis_def output_axis_labels_def
  output_data_patterns_def output_metadata_dict_def output_metadata_def try_close_def
  h5_close_def close_and_reset_def file_attr_def
  close_file_def register_link_def add_data_links_def effective_link_type_def save_data_def
  split_path_def backing_getitem_path_def open_read_only_def h5_empty_def h5_getitem_def
  h5_create_group_def h5_require_group_def h5_create_dataset_def h5_write_dataset_def
  h5_create_dataset_from_def h5_set_attr_def h5_set_link_def h5_name_def split_last_def
  backing_contents_def

lemmas peaks_defs = peaks_exp_def peaks_data_def frame_chunks_def

lemma peaks_ready_handle:
  "d_backing_file (snd peaks_ready) = Some \<lparr>filename = ''/out/run42.h5'', mode = ''r+'', is_open = True\<rparr>"
  unfolding peaks_ready_def
  by (simp add: run_defs peaks_defs)

section \<open>Closing\<close>

text \<open>
  What \<^verbatim>\<open>_close_file\<close> does, in one equation. With a file object in the handle the
  \<^verbatim>\<open>try\<close> block always ends in its \<^verbatim>\<open>except\<close> branch: either \<^verbatim>\<open>close()\<close> raises, or
  it closes the file and the read of \<^verbatim>\<open>.filename\<close> that follows raises.
\<close>

lemma close_file_result:
  "close_file close_ok s =
     (Inr (),
      ((fst s)\<lparr>trace := trace (fst s) @ [Barrier] @
                   (if d_backing_file (snd s) = None then [] else [Coll OpClose]) @ [Barrier],
               logs := logs (fst s) @ [''Trying to close the file the file''] @
                   (if d_backing_file (snd s) = None then []
                    else [''File close unsuccessful''])\<rparr>,
       if close_ok
       then (snd s)\<lparr>d_backing_file :=
                      map_option (\<lambda>h. h\<lparr>is_open := False\<rparr>) (d_backing_file (snd s))\<rparr>
       else snd s))"
proof (cases "d_backing_file (snd s)")
  case None
  then have "(snd s)\<lparr>d_backing_file := None\<rparr> = snd s"
    by (cases "snd s") simp
  with None show ?thesis
    by (simp add: close_file_def andthen_def barrier_def logging_def ret_def)
next
  case (Some h)
  then show ?thesis
    by (simp add: close_file_def try_close_def close_and_reset_def h5_close_def file_attr_def
        andthen_def barrier_def logging_def emit_def ret_def raise_def reading_def
        update_data_def)
qed

text \<open>
  C3. \<^verbatim>\<open>_close_file\<close> always returns, so no failure is propagated; but it never unsets
  the handle \<^verbatim>\<open>data.backing_file\<close>: the handle is unset after the call exactly when it
  was unset before. For the open file of \<^verbatim>\<open>Peaks\<close> whose \<^verbatim>\<open>close()\<close> succeeds, the
  call returns with the handle on the closed file object and with the message
  \<^verbatim>\<open>File close unsuccessful\<close> in the log.
\<close>

theorem close_file_never_unsets_handle:
  "(\<exists>s'. close_file close_ok s = (Inr (), s') \<and>
         (d_backing_file (snd s') = None) = (d_backing_file (snd s) = None)) \<and>
   fst (close_file True peaks_ready) = Inr () \<and>
   d_backing_file (snd (snd (close_file True peaks_ready))) =
     Some \<lparr>filename = ''/out/run42.h5'', mode = ''r+'', is_open = False\<rparr> \<and>
   logs (fst (snd (close_file True peaks_ready))) =
     logs (fst peaks_ready) @
       [''Trying to close the file the file'', ''File close unsuccessful'']"
  by (simp add: close_file_result peaks_ready_handle)


section \<open>Frames\<close>

lemma keepsD: "keeps g m \<Longrightarrow> m s = (r, s') \<Longrightarrow> g s' = g s"
  unfolding keeps_def by blast

lemma keepsI: "(\<And>s r s'. m s = (r, s') \<Longrightarrow> g s' = g s) \<Longrightarrow> keeps g m"
  unfolding keeps_def by blast

lemma keeps_andthen:
  assumes "keeps g m" and "\<And>a. keeps g (f a)"
  shows "keeps g (andthen m f)"
proof (rule keepsI)
  fix s r s'
  assume "andthen m f s = (r, s')"
  then show "g s' = g s"
  proof (cases rule: andthen_cases)
    case (fails e)
    then show ?thesis using assms(1) by (simp add: keepsD)
  next
    case (continues a s1)
    then show ?thesis using assms keepsD by metis
  qed
qed

lemma keeps_ret: "keeps g (ret a)"
  by (rule keepsI) (simp add: ret_def)

lemma keeps_raise: "keeps g (raise e)"
  by (rule keepsI) (simp add: raise_def)

lemma keeps_reading: "keeps g (reading h)"
  by (rule keepsI) (simp add: reading_def)

lemma keeps_if: "keeps g m \<Longrightarrow> keeps g m' \<Longrightarrow> keeps g (if b then m else m')"
  by simp

lemma keeps_backing_getitem: "keeps g (backing_getitem nm)"
  by (simp add: backing_getitem_def keeps_reading)

lemmas keeps_pure = keeps_andthen keeps_ret keeps_raise keeps_reading keeps_if keeps_backing_getitem

text \<open>The master index is written by \<open>master_write\<close> only.\<close>

lemma keeps_master_barrier: "keeps (\<lambda>s. nxs_file (fst s)) barrier"
  by (rule keepsI) (auto simp: barrier_def)

lemma keeps_master_emit: "keeps (\<lambda>s. nxs_file (fst s)) (emit k)"
  by (rule keepsI) (auto simp: emit_def)

lemma keeps_master_logging: "keeps (\<lambda>s. nxs_file (fst s)) (logging msg)"
  by (rule keepsI) (auto simp: logging_def)

lemma keeps_master_update_data: "keeps (\<lambda>s. nxs_file (fst s)) (update_data u)"
  by (rule keepsI) (auto simp: update_data_def)

lemma keeps_master_backing_write: "keeps (\<lambda>s. nxs_file (fst s)) (backing_write k op)"
  by (rule keepsI) (auto simp: backing_write_def split: option.splits if_splits sum.splits)

lemmas keeps_master = keeps_pure keeps_master_barrier keeps_master_emit keeps_master_logging
  keeps_master_update_data keeps_master_backing_write

lemma keeps_master_axis_loop: "keeps (\<lambda>s. nxs_file (fst s)) (output_axis_labels_loop ls n e)"
  by (induction ls arbitrary: n) (simp add: keeps_ret, simp, intro keeps_master)

lemma keeps_master_patterns_loop: "keeps (\<lambda>s. nxs_file (fst s)) (output_data_patterns_loop ls e)"
  by (induction ls) (simp add: keeps_ret, simp, intro keeps_master)

lemma keeps_master_dict_loop: "keeps (\<lambda>s. nxs_file (fst s)) (output_metadata_dict_loop ls e)"
  by (induction ls) (simp add: keeps_ret, simp, intro keeps_master)

lemma keeps_master_output_metadata: "keeps (\<lambda>s. nxs_file (fst s)) (output_metadata e)"
  unfolding output_metadata_def output_axis_labels_def output_data_patterns_def
    output_metadata_dict_def
  by (intro keeps_master keeps_master_axis_loop keeps_master_patterns_loop keeps_master_dict_loop)

text \<open>The descriptor is assigned to by \<open>update_data\<close> only.\<close>

lemma keeps_data_barrier: "keeps snd barrier"
  by (rule keepsI) (auto simp: barrier_def)

lemma keeps_data_emit: "keeps snd (emit k)"
  by (rule keepsI) (auto simp: emit_def)

lemma keeps_data_logging: "keeps snd (logging msg)"
  by (rule keepsI) (auto simp: logging_def)

lemma keeps_data_backing_write: "keeps snd (backing_write k op)"
  by (rule keepsI) (auto simp: backing_write_def split: option.splits if_splits sum.splits)

lemma keeps_data_master_write: "keeps snd (master_write k op)"
  by (rule keepsI) (auto simp: master_write_def split: sum.splits)

lemmas keeps_data = keeps_pure keeps_data_barrier keeps_data_emit keeps_data_logging
  keeps_data_backing_write keeps_data_master_write

lemma keeps_data_axis_loop: "keeps snd (output_axis_labels_loop ls n e)"
  by (induction ls arbitrary: n) (simp add: keeps_ret, simp, intro keeps_data)

lemma keeps_data_patterns_loop: "keeps snd (output_data_patterns_loop ls e)"
  by (induction ls) (simp add: keeps_ret, simp, intro keeps_data)

lemma keeps_data_dict_loop: "keeps snd (output_metadata_dict_loop ls e)"
  by (induction ls) (simp add: keeps_ret, simp, intro keeps_data)

lemma keeps_data_output_metadata: "keeps snd (output_metadata e)"
  unfolding output_metadata_def output_axis_labels_def output_data_patterns_def
    output_metadata_dict_def
  by (intro keeps_data keeps_data_axis_loop keeps_data_patterns_loop keeps_data_dict_loop)

lemma keeps_data_register_link: "keeps snd (register_link lt e f)"
  unfolding register_link_def by (intro keeps_data)

lemma keeps_data_add_data_links: "keeps snd (add_data_links lt)"
  unfolding add_data_links_def
  by (intro keeps_data keeps_data_output_metadata keeps_data_register_link)

text \<open>The files on disk are written by \<open>backing_write\<close> and \<^verbatim>\<open>h5py.File\<close> only.\<close>

lemma keeps_disk_barrier: "keeps (\<lambda>s. disk (fst s)) barrier"
  by (rule keepsI) (auto simp: barrier_def)

lemma keeps_disk_logging: "keeps (\<lambda>s. disk (fst s)) (logging msg)"
  by (rule keepsI) (auto simp: logging_def)

lemma keeps_disk_master_write: "keeps (\<lambda>s. disk (fst s)) (master_write k op)"
  by (rule keepsI) (auto simp: master_write_def split: sum.splits)

lemmas keeps_disk = keeps_pure keeps_disk_barrier keeps_disk_logging keeps_disk_master_write

lemma keeps_disk_register_link: "keeps (\<lambda>s. disk (fst s)) (register_link lt e f)"
  unfolding register_link_def by (intro keeps_disk)

section \<open>Barriers\<close>

lemma scan_append:
  "scan q (t1 @ t2) = (case scan q t1 of None \<Rightarrow> None | Some q' \<Rightarrow> scan q' t2)"
  by (induction t1 arbitrary: q) (auto split: option.splits)

lemma tracesI:
  assumes "\<And>s r s'. m s = (r, s') \<Longrightarrow>
     \<exists>t. trace (fst s') = trace (fst s) @ t \<and>
         (\<forall>q. P q \<longrightarrow> (\<exists>q'. scan q t = Some q' \<and>
                                 (case r of Inl e \<Rightarrow> True | Inr a \<Rightarrow> Q q')))"
  shows "traces P m Q"
  unfolding traces_def using assms by blast

lemma tracesD:
  assumes "traces P m Q" and "m s = (r, s')"
  shows "\<exists>t. trace (fst s') = trace (fst s) @ t \<and>
             (\<forall>q. P q \<longrightarrow> (\<exists>q'. scan q t = Some q' \<and>
                                     (case r of Inl e \<Rightarrow> True | Inr a \<Rightarrow> Q q')))"
  using assms unfolding traces_def by blast

lemma traces_andthen:
  assumes "traces P m Q" and "\<And>a. traces Q (f a) R"
  shows "traces P (andthen m f) R"
proof (rule tracesI)
  fix s r s'
  assume "andthen m f s = (r, s')"
  then show "\<exists>t. trace (fst s') = trace (fst s) @ t \<and>
      (\<forall>q. P q \<longrightarrow> (\<exists>q'. scan q t = Some q' \<and>
                              (case r of Inl e \<Rightarrow> True | Inr a \<Rightarrow> R q')))"
  proof (cases rule: andthen_cases)
    case (fails e)
    from tracesD[OF assms(1) fails(1)] fails(2) show ?thesis
      by auto
  next
    case (continues a s1)
    from tracesD[OF assms(1) continues(1)]
    obtain t1 where t1: "trace (fst s1) = trace (fst s) @ t1"
      and p1: "\<And>q. P q \<Longrightarrow> \<exists>q'. scan q t1 = Some q' \<and> Q q'"
      by auto
    from tracesD[OF assms(2) continues(2)]
    obtain t2 where t2: "trace (fst s') = trace (fst s1) @ t2"
      and p2: "\<And>q. Q q \<Longrightarrow> \<exists>q'. scan q t2 = Some q' \<and>
                                  (case r of Inl e \<Rightarrow> True | Inr a \<Rightarrow> R q')"
      by blast
    have "\<forall>q. P q \<longrightarrow> (\<exists>q'. scan q (t1 @ t2) = Some q' \<and>
                                (case r of Inl e \<Rightarrow> True | Inr a \<Rightarrow> R q'))"
    proof (intro allI impI)
      fix q assume "P q"
      then obtain q1 where "scan q t1 = Some q1" "Q q1" using p1 by blast
      moreover then obtain q2 where "scan q1 t2 = Some q2"
        "case r of Inl e \<Rightarrow> True | Inr a \<Rightarrow> R q2" using p2 by blast
      ultimately show "\<exists>q'. scan q (t1 @ t2) = Some q' \<and>
                             (case r of Inl e \<Rightarrow> True | Inr a \<Rightarrow> R q')"
        by (simp add: scan_append)
    qed
    with t1 t2 show ?thesis
      by (intro exI[of _ "t1 @ t2"]) simp
  qed
qed

lemma traces_silent:
  assumes "\<And>s r s'. m s = (r, s') \<Longrightarrow> trace (fst s') = trace (fst s)"
  shows "traces P m P"
proof (rule tracesI)
  fix s r s'
  assume "m s = (r, s')"
  then have "trace (fst s') = trace (fst s) @ []"
    using assms by simp
  moreover have "\<forall>q. P q \<longrightarrow> (\<exists>q'. scan q [] = Some q' \<and>
                                 (case r of Inl e \<Rightarrow> True | Inr a \<Rightarrow> P q'))"
    by (cases r) simp_all
  ultimately show "\<exists>t. trace (fst s') = trace (fst s) @ t \<and>
      (\<forall>q. P q \<longrightarrow> (\<exists>q'. scan q t = Some q' \<and>
                              (case r of Inl e \<Rightarrow> True | Inr a \<Rightarrow> P q')))"
    by blast
qed

lemma traces_ret: "traces P (ret a) P"
  by (rule traces_silent) (simp add: ret_def)

lemma traces_reading: "traces P (reading g) P"
  by (rule traces_silent) (auto simp add: reading_def split: sum.splits)

lemma traces_logging: "traces P (logging msg) P"
  by (rule traces_silent) (auto simp add: logging_def)

lemma traces_update_data: "traces P (update_data u) P"
  by (rule traces_silent) (auto simp add: update_data_def)

lemma traces_backing_getitem: "traces P (backing_getitem nm) P"
  by (simp add: backing_getitem_def traces_reading)

lemma traces_backing_getitem_path: "traces P (backing_getitem_path nm) P"
  by (simp add: backing_getitem_path_def traces_reading)

lemma traces_raise: "traces P (raise e) Q"
  by (rule tracesI) (auto simp add: raise_def)

lemma traces_if: "traces P m Q \<Longrightarrow> traces P m' Q \<Longrightarrow> traces P (if b then m else m') Q"
  by simp

lemma traces_barrier: "traces P barrier synced"
  by (rule tracesI) (auto simp: barrier_def synced_def)

lemma scan_Coll_opened: "opened k q \<Longrightarrow> scan q [Coll k] = Some (Within k)"
  by (auto simp: opened_def)

text \<open>An operation that is recorded when it returns and changes nothing when it raises.\<close>

lemma traces_single:
  assumes "\<And>s a s'. m s = (Inr a, s') \<Longrightarrow> trace (fst s') = trace (fst s) @ [Coll k]"
    and "\<And>s e s'. m s = (Inl e, s') \<Longrightarrow> trace (fst s') = trace (fst s)"
    and "\<And>q. P q \<Longrightarrow> opened k q"
  shows "traces P m (opened k)"
proof (rule tracesI)
  fix s r s'
  assume run: "m s = (r, s')"
  show "\<exists>t. trace (fst s') = trace (fst s) @ t \<and>
      (\<forall>q. P q \<longrightarrow> (\<exists>q'. scan q t = Some q' \<and>
                              (case r of Inl e \<Rightarrow> True | Inr a \<Rightarrow> opened k q')))"
  proof (cases r)
    case (Inl e)
    with run have "trace (fst s') = trace (fst s) @ []"
      using assms(2) by simp
    with Inl show ?thesis
      by (intro exI[of _ "[]"]) simp
  next
    case (Inr a)
    with run have "trace (fst s') = trace (fst s) @ [Coll k]"
      using assms(1) by simp
    moreover have "\<forall>q. P q \<longrightarrow> (\<exists>q'. scan q [Coll k] = Some q' \<and> opened k q')"
      using assms(3) scan_Coll_opened by (metis opened_def)
    ultimately show ?thesis
      using Inr by (intro exI[of _ "[Coll k]"]) simp
  qed
qed

lemma traces_emit:
  assumes "\<And>q. P q \<Longrightarrow> opened k q"
  shows "traces P (emit k) (opened k)"
  by (rule traces_single[OF _ _ assms]) (auto simp: emit_def)

lemma traces_backing_write:
  assumes "\<And>q. P q \<Longrightarrow> opened k q"
  shows "traces P (backing_write k op) (opened k)"
  by (rule traces_single[OF _ _ assms])
     (auto simp: backing_write_def split: option.splits if_splits sum.splits)

lemma traces_master_write:
  assumes "\<And>q. P q \<Longrightarrow> opened k q"
  shows "traces P (master_write k op) (opened k)"
  by (rule traces_single[OF _ _ assms])
     (auto simp: master_write_def split: sum.splits)

lemma traces_open:
  assumes "\<And>q. P q \<Longrightarrow> opened OpOpen q"
  shows "traces P (\<lambda>s. if mpi (fst s) then h5py_File fname ''w'' s else h5py_File fname md s)
           (opened OpOpen)"
  by (rule traces_single[OF _ _ assms])
     (auto simp: h5py_File_def split: option.splits if_splits)

lemma traces_weaken:
  assumes "traces P' m Q" and "\<And>q. P q \<Longrightarrow> P' q"
  shows "traces P m Q"
  using assms unfolding traces_def by meson

lemma synced_opened: "synced q \<Longrightarrow> opened k q"
  by (simp add: synced_def opened_def)

lemma traces_case_option:
  assumes "traces P m Q" and "\<And>x. traces P (f x) Q"
  shows "traces P (case v of None \<Rightarrow> m | Some x \<Rightarrow> f x) Q"
  using assms by (cases v) simp_all

lemmas traces_rules = traces_andthen traces_ret traces_reading traces_logging traces_update_data
  traces_backing_getitem traces_backing_getitem_path traces_raise traces_if traces_barrier
  traces_emit traces_backing_write traces_master_write traces_open traces_case_option

lemma traces_open_backing_h5: "traces P (open_backing_h5 fname md) synced"
  unfolding open_backing_h5_def
  by (rule traces_rules | erule synced_opened | assumption)+

lemma traces_create_data:
  "traces synced (create_data cc cn g shape dt) (opened OpCreateDataset)"
  by (cases cn; simp) (rule traces_rules | erule synced_opened | assumption)+

lemma traces_create_entries: "traces P (create_entries cc key cn) synced"
  unfolding create_entries_def
  by (rule traces_rules traces_create_data | erule synced_opened | assumption)+

lemma traces_setup_one: "traces P (setup_one cc key cn) synced"
  unfolding setup_one_def
  by (rule traces_rules traces_open_backing_h5 traces_create_entries)+

lemma traces_axis_loop:
  "traces (opened OpAxisLabels) (output_axis_labels_loop ls n e) (opened OpAxisLabels)"
  by (induction ls arbitrary: n) (simp add: traces_ret, simp, (rule traces_rules | assumption)+)

lemma traces_output_axis_labels: "traces P (output_axis_labels e) synced"
  unfolding output_axis_labels_def
  by (rule traces_rules traces_weaken[OF traces_axis_loop] | erule synced_opened | assumption)+

lemma traces_patterns_loop:
  "traces (opened OpPatterns) (output_data_patterns_loop ls e) (opened OpPatterns)"
  by (induction ls) (simp add: traces_ret, simp, (rule traces_rules | assumption)+)

lemma traces_output_data_patterns: "traces P (output_data_patterns e) synced"
  unfolding output_data_patterns_def
  by (rule traces_rules traces_patterns_loop | erule synced_opened | assumption)+

lemma traces_dict_loop:
  "traces (opened OpMetaDict) (output_metadata_dict_loop ls e) (opened OpMetaDict)"
  by (induction ls) (simp add: traces_ret, simp, (rule traces_rules | assumption)+)

lemma traces_output_metadata_dict: "traces P (output_metadata_dict e) synced"
  unfolding output_metadata_dict_def
  by (rule traces_rules traces_dict_loop | erule synced_opened | assumption)+

lemma traces_output_metadata: "traces P (output_metadata e) synced"
  unfolding output_metadata_def
  by (rule traces_rules traces_output_axis_labels traces_output_data_patterns
        traces_output_metadata_dict)+

lemma traces_close_file: "traces P (close_file close_ok) synced"
proof (rule tracesI)
  fix s r s'
  assume "close_file close_ok s = (r, s')"
  then have "r = Inr ()" and "trace (fst s') = trace (fst s) @ [Barrier] @
      (if d_backing_file (snd s) = None then [] else [Coll OpClose]) @ [Barrier]"
    by (auto simp: close_file_result)
  moreover have "\<forall>q. scan q ([Barrier] @
      (if d_backing_file (snd s) = None then [] else [Coll OpClose]) @ [Barrier]) = Some Synced"
    by simp
  ultimately show "\<exists>t. trace (fst s') = trace (fst s) @ t \<and>
      (\<forall>q. P q \<longrightarrow> (\<exists>q'. scan q t = Some q' \<and>
                              (case r of Inl e \<Rightarrow> True | Inr a \<Rightarrow> synced q')))"
    unfolding synced_def by auto
qed

lemma traces_register_link:
  "traces synced (register_link lt e f) (opened OpLink)"
  unfolding register_link_def
  by (rule traces_rules | erule synced_opened | assumption)+

lemma traces_add_data_links: "traces P (add_data_links lt) synced"
  unfolding add_data_links_def
  by (rule traces_rules traces_output_metadata traces_register_link)+

lemma traces_save_data: "traces P (save_data close_ok lt0) synced"
  unfolding save_data_def
  by (rule traces_rules traces_case_option traces_close_file traces_add_data_links)+

lemma traces_open_read_only: "traces P (open_read_only fname entry) synced"
  unfolding open_read_only_def
  by (rule traces_rules traces_open_backing_h5)+

lemma bracketed_well_begun: "bracketed t \<Longrightarrow> well_begun t"
  by (simp add: bracketed_def well_begun_def)

lemma traces_brackets:
  assumes "traces (\<lambda>q. True) m synced"
  shows "brackets m"
  unfolding brackets_def
proof (intro allI impI)
  fix s r s'
  assume "m s = (r, s')"
  from tracesD[OF assms this]
  obtain t q' where t: "trace (fst s') = trace (fst s) @ t"
    and q: "scan Unsynced t = Some q'" "case r of Inl e \<Rightarrow> True | Inr a \<Rightarrow> synced q'"
    by blast
  from q have "case r of Inl e \<Rightarrow> well_begun t | Inr a \<Rightarrow> bracketed t"
    by (cases r) (simp_all add: well_begun_def bracketed_def synced_def)
  with t show "\<exists>t. trace (fst s') = trace (fst s) @ t \<and>
      (case r of Inl e \<Rightarrow> well_begun t | Inr a \<Rightarrow> bracketed t)"
    by blast
qed

text \<open>
  C2, as the code has it. The events of every store operation that returns are
  bracketed: each of its collective operations (opening the backing file, creating
  the group, planning the chunks, creating the data array, each of the three metadata
  writes, registering the link, closing) is in a block that has a barrier right before
  and right after it. This covers the early exit of \<^verbatim>\<open>_save_data\<close>, the contiguous and
  the chunked allocation, both ways of opening, both link kinds and both outcomes of
  the close. When a store operation raises, its events are bracketed but for the end:
  every block has its barrier before it, and every block but the one in which the
  exception was raised has its barrier after it.
\<close>

theorem store_operations_bracketed:
  "brackets (open_backing_h5 fname md) \<and>
   brackets (create_entries calculate_chunking key cn) \<and>
   brackets (output_axis_labels entry) \<and>
   brackets (output_data_patterns entry) \<and>
   brackets (output_metadata_dict entry) \<and>
   brackets (add_data_links linkType) \<and>
   brackets (close_file close_ok) \<and>
   brackets (save_data close_ok link_type) \<and>
   brackets (open_read_only fname path) \<and>
   brackets (setup_one calculate_chunking key cn)"
  by (intro conjI traces_brackets traces_open_backing_h5 traces_create_entries
      traces_output_axis_labels traces_output_data_patterns traces_output_metadata_dict
      traces_add_data_links traces_close_file traces_save_data traces_open_read_only
      traces_setup_one)

lemma peaks_save_returns:
  "fst (save_data True (Some ''final_result'') peaks_ready) =
     Inr (Some (''/1-Peaks/data'', ''/out/run42.h5''))"
  by code_simp

lemma peaks_scalar_save_raises:
  "fst (save_data True (Some ''final_result'') peaks_scalar) = Inl AttributeError"
  by code_simp

theorem store_operations_bracketed_witness:
  "(\<exists>t. trace (fst (snd (save_data True (Some ''final_result'') peaks_ready))) =
          trace (fst peaks_ready) @ t \<and> bracketed t) \<and>
   (\<exists>t. trace (fst (snd (save_data True (Some ''final_result'') peaks_scalar))) =
          trace (fst peaks_scalar) @ t \<and> well_begun t)"
proof -
  have b: "brackets (save_data True (Some ''final_result''))"
    using store_operations_bracketed by blast
  have "save_data True (Some ''final_result'') peaks_ready =
      (Inr (Some (''/1-Peaks/data'', ''/out/run42.h5'')),
       snd (save_data True (Some ''final_result'') peaks_ready))"
    using peaks_save_returns by (metis prod.collapse)
  with b have "\<exists>t. trace (fst (snd (save_data True (Some ''final_result'') peaks_ready))) =
          trace (fst peaks_ready) @ t \<and> bracketed t"
    unfolding brackets_def by fastforce
  moreover have "save_data True (Some ''final_result'') peaks_scalar =
      (Inl AttributeError, snd (save_data True (Some ''final_result'') peaks_scalar))"
    using peaks_scalar_save_raises by (metis prod.collapse)
  with b have "\<exists>t. trace (fst (snd (save_data True (Some ''final_result'') peaks_scalar))) =
          trace (fst peaks_scalar) @ t \<and> well_begun t"
    unfolding brackets_def by fastforce
  ultimately show ?thesis
    by blast
qed

text \<open>
  C2 as stated fails on a path that raises. With a number under a label name in the
  meta data, \<^verbatim>\<open>_save_data\<close> raises \<^verbatim>\<open>AttributeError\<close> in \<^verbatim>\<open>__output_axis_labels\<close>, at the
  read of \<^verbatim>\<open>mData.shape\<close>, after five writes of the axis labels: these operations are
  followed by no barrier.
\<close>

theorem save_data_raise_leaves_block_open:
  "fst (save_data True (Some ''final_result'') peaks_scalar) = Inl AttributeError \<and>
   trace (fst (snd (save_data True (Some ''final_result'') peaks_scalar))) =
     trace (fst peaks_scalar) @
       [Barrier, Barrier, Barrier, Coll OpAxisLabels, Coll OpAxisLabels, Coll OpAxisLabels,
        Coll OpAxisLabels, Coll OpAxisLabels] \<and>
   \<not> bracketed
       [Barrier, Barrier, Barrier, Coll OpAxisLabels, Coll OpAxisLabels, Coll OpAxisLabels,
        Coll OpAxisLabels, Coll OpAxisLabels]"
  by code_simp

section \<open>Saving\<close>

lemma add_data_links_kind:
  assumes "add_data_links lt s = (Inr a, s')"
  shows "lt = ''final_result'' \<or> lt = ''intermediate''"
proof (rule ccontr)
  assume "\<not> (lt = ''final_result'' \<or> lt = ''intermediate'')"
  then have "register_link lt = (\<lambda>e f. raise LinkTypeNotKnown)"
    by (auto simp: register_link_def fun_eq_iff)
  with assms show False
    by (auto simp: add_data_links_def andthen_Inr raise_def)
qed

lemma effective_link_type_fst:
  "effective_link_type lt (e, snd s) = effective_link_type lt s"
  by (simp add: effective_link_type_def file_attr_def)

text \<open>
  C7. When the remove flag is set, or the backing file is open read-only,
  \<^verbatim>\<open>_save_data\<close> returns \<^verbatim>\<open>None\<close> without an error; the master index and the files
  on disk are as before (nothing is linked, no metadata is written); and the file is
  closed by \<^verbatim>\<open>_close_file\<close>: the \<^verbatim>\<open>close()\<close> of the file object stands between
  barriers, and the file object is closed when \<^verbatim>\<open>close()\<close> returns. Nothing else of
  the descriptor changes.
\<close>

theorem save_data_skips_link:
  assumes "d_remove (snd s) \<or>
           (\<exists>h. d_backing_file (snd s) = Some h \<and> is_open h \<and> mode h = ''r'')"
  shows "\<exists>s'. save_data close_ok link_type s = (Inr None, s') \<and>
     nxs_file (fst s') = nxs_file (fst s) \<and> disk (fst s') = disk (fst s) \<and>
     trace (fst s') = trace (fst s) @ [Barrier, Barrier] @
        (if d_backing_file (snd s) = None then [] else [Coll OpClose]) @ [Barrier] \<and>
     snd s' = (if close_ok
               then (snd s)\<lparr>d_backing_file :=
                      map_option (\<lambda>h. h\<lparr>is_open := False\<rparr>) (d_backing_file (snd s))\<rparr>
               else snd s)"
proof -
  have "effective_link_type link_type s = Inr None"
    using assms by (auto simp: effective_link_type_def file_attr_def)
  then have "\<And>e. effective_link_type link_type (e, snd s) = Inr None"
    by (simp add: effective_link_type_fst)
  then show ?thesis
    by (simp add: save_data_def andthen_def barrier_def logging_def reading_def
        close_file_result ret_def)
qed

theorem save_data_skips_link_witness:
  "(\<exists>s'. save_data True (Some ''final_result'') (fst peaks_ready, (snd peaks_ready)\<lparr>d_remove := True\<rparr>)
          = (Inr None, s') \<and>
        nxs_file (fst s') = nxs_file (fst peaks_ready) \<and> disk (fst s') = disk (fst peaks_ready) \<and>
        d_backing_file (snd s') =
          Some \<lparr>filename = ''/out/run42.h5'', mode = ''r+'', is_open = False\<rparr>) \<and>
   (\<exists>s'. save_data True (Some ''final_result'')
            (fst peaks_ready, (snd peaks_ready)\<lparr>d_backing_file :=
               Some \<lparr>filename = ''/out/run42.h5'', mode = ''r'', is_open = True\<rparr>\<rparr>)
          = (Inr None, s') \<and>
        nxs_file (fst s') = nxs_file (fst peaks_ready) \<and> disk (fst s') = disk (fst peaks_ready) \<and>
        d_backing_file (snd s') =
          Some \<lparr>filename = ''/out/run42.h5'', mode = ''r'', is_open = False\<rparr>)"
  using save_data_skips_link [of "(fst peaks_ready, (snd peaks_ready)\<lparr>d_remove := True\<rparr>)"
      True "Some ''final_result''"]
    save_data_skips_link [of "(fst peaks_ready, (snd peaks_ready)\<lparr>d_backing_file :=
               Some \<lparr>filename = ''/out/run42.h5'', mode = ''r'', is_open = True\<rparr>\<rparr>)" True "Some ''final_result''"]
    peaks_ready_handle
  by auto

text \<open>
  C10. When \<^verbatim>\<open>_save_data\<close> is called with a link type on a descriptor that is not to
  be removed and whose file is open for writing, and it returns, then the link type
  was a valid one and the result is the pair of the in-file path of the data array and
  the name of the backing file, both as they were before the file was closed (the file
  object is closed afterwards when \<^verbatim>\<open>close()\<close> returns, and nothing else of the
  descriptor changes). When linking is skipped (no link type, remove flag, or read-only
  file) the result is \<^verbatim>\<open>None\<close>.
\<close>

theorem save_data_result:
  "(save_data close_ok (Some lt) s = (Inr r, s') \<and> \<not> d_remove (snd s) \<and>
      d_backing_file (snd s) = Some h \<and> mode h \<noteq> ''r'' \<longrightarrow>
        (lt = ''final_result'' \<or> lt = ''intermediate'') \<and>
        (\<exists>p. d_data (snd s) = Some p \<and> r = Some (h5_name p, filename h)) \<and>
        snd s' = (if close_ok then (snd s)\<lparr>d_backing_file := Some (h\<lparr>is_open := False\<rparr>)\<rparr>
                  else snd s)) \<and>
   (effective_link_type link_type s = Inr None \<longrightarrow>
        fst (save_data close_ok link_type s) = Inr None)"
proof (intro conjI impI)
  assume "effective_link_type link_type s = Inr None"
  then have "\<And>e. effective_link_type link_type (e, snd s) = Inr None"
    by (simp add: effective_link_type_fst)
  then show "fst (save_data close_ok link_type s) = Inr None"
    by (simp add: save_data_def andthen_def barrier_def logging_def reading_def
        close_file_result ret_def)
next
  assume a: "save_data close_ok (Some lt) s = (Inr r, s') \<and> \<not> d_remove (snd s) \<and>
      d_backing_file (snd s) = Some h \<and> mode h \<noteq> ''r''"
  define s0 where "s0 = snd (andthen barrier (\<lambda>_. logging ''Saving the data to the hdf5 file'') s)"
  have s0: "snd s0 = snd s"
    by (simp add: s0_def andthen_def barrier_def logging_def)
  from a have run: "save_data close_ok (Some lt) s = (Inr r, s')"
    and bf: "d_backing_file (snd s) = Some h"
    and rm: "\<not> d_remove (snd s)" and md: "mode h \<noteq> ''r''"
    by simp_all
  have op: "is_open h"
  proof (rule ccontr)
    assume "\<not> is_open h"
    with bf rm have "\<And>e. effective_link_type (Some lt) (e, snd s) = Inl ValueError"
      by (simp add: effective_link_type_def file_attr_def)
    then have "fst (save_data close_ok (Some lt) s) = Inl ValueError"
      by (simp add: save_data_def andthen_def barrier_def logging_def reading_def)
    with run show False
      by simp
  qed
  from bf rm md op have eff: "\<And>e. effective_link_type (Some lt) (e, snd s) = Inr (Some lt)"
    by (simp add: effective_link_type_def file_attr_def)
  from run have "andthen (add_data_links lt) (\<lambda>_.
         andthen (reading (file_attr filename)) (\<lambda>fname.
         andthen (reading (\<lambda>s. case d_data (snd s) of
                                 None \<Rightarrow> Inl AttributeError
                               | Some p \<Rightarrow> Inr (h5_name p))) (\<lambda>entry.
         andthen (close_file close_ok) (\<lambda>_.
         andthen barrier (\<lambda>_.
         ret (Some (entry, fname))))))) s0 = (Inr r, s')"
    by (simp add: save_data_def s0_def andthen_def barrier_def logging_def reading_def eff)
  then obtain u s1 where links: "add_data_links lt s0 = (Inr u, s1)"
    and rest: "andthen (reading (file_attr filename)) (\<lambda>fname.
         andthen (reading (\<lambda>s. case d_data (snd s) of
                                 None \<Rightarrow> Inl AttributeError
                               | Some p \<Rightarrow> Inr (h5_name p))) (\<lambda>entry.
         andthen (close_file close_ok) (\<lambda>_.
         andthen barrier (\<lambda>_.
         ret (Some (entry, fname)))))) s1 = (Inr r, s')"
    by (auto simp: andthen_Inr)
  have s1: "snd s1 = snd s"
    using keepsD[OF keeps_data_add_data_links links] s0 by simp
  show "lt = ''final_result'' \<or> lt = ''intermediate''"
    using links by (rule add_data_links_kind)
  show "\<exists>p. d_data (snd s) = Some p \<and> r = Some (h5_name p, filename h)"
    using rest s1 bf op
    by (auto simp: andthen_Inr reading_def file_attr_def close_file_result barrier_def ret_def
        split: option.splits)
  show "snd s' = (if close_ok then (snd s)\<lparr>d_backing_file := Some (h\<lparr>is_open := False\<rparr>)\<rparr>
                  else snd s)"
    using rest s1 bf op
    by (auto simp: andthen_Inr reading_def file_attr_def close_file_result barrier_def ret_def
        split: option.splits)
qed

theorem save_data_result_witness:
  "save_data True (Some ''final_result'') peaks_ready =
     (Inr (Some (''/1-Peaks/data'', ''/out/run42.h5'')),
      snd (save_data True (Some ''final_result'') peaks_ready)) \<and>
   d_remove (snd peaks_ready) = False \<and>
   d_backing_file (snd peaks_ready) = Some \<lparr>filename = ''/out/run42.h5'', mode = ''r+'', is_open = True\<rparr> \<and>
   d_data (snd peaks_ready) = Some [''1-Peaks'', ''data''] \<and>
   h5_name [''1-Peaks'', ''data''] = ''/1-Peaks/data'' \<and>
   d_backing_file (snd (snd (save_data True (Some ''final_result'') peaks_ready))) =
     Some \<lparr>filename = ''/out/run42.h5'', mode = ''r+'', is_open = False\<rparr> \<and>
   effective_link_type (Some ''final_result'') (fst peaks_ready, (snd peaks_ready)\<lparr>d_remove := True\<rparr>)
     = Inr None \<and>
   fst (save_data True (Some ''final_result'') (fst peaks_ready, (snd peaks_ready)\<lparr>d_remove := True\<rparr>))
     = Inr None"
proof -
  have run: "save_data True (Some ''final_result'') peaks_ready =
     (Inr (Some (''/1-Peaks/data'', ''/out/run42.h5'')),
      snd (save_data True (Some ''final_result'') peaks_ready))"
    using peaks_save_returns by (metis prod.collapse)
  have rm: "d_remove (snd peaks_ready) = False"
    unfolding peaks_ready_def by (simp add: run_defs peaks_defs)
  have dd: "d_data (snd peaks_ready) = Some [''1-Peaks'', ''data'']"
    unfolding peaks_ready_def by (simp add: run_defs peaks_defs)
  have skip: "effective_link_type (Some ''final_result'')
      (fst peaks_ready, (snd peaks_ready)\<lparr>d_remove := True\<rparr>) = Inr None"
    by (simp add: effective_link_type_def)
  have prem: "save_data True (Some ''final_result'') peaks_ready =
       (Inr (Some (''/1-Peaks/data'', ''/out/run42.h5'')),
        snd (save_data True (Some ''final_result'') peaks_ready)) \<and>
     \<not> d_remove (snd peaks_ready) \<and>
     d_backing_file (snd peaks_ready) = Some \<lparr>filename = ''/out/run42.h5'', mode = ''r+'', is_open = True\<rparr> \<and>
     mode \<lparr>filename = ''/out/run42.h5'', mode = ''r+'', is_open = True\<rparr> \<noteq> ''r''"
    by (intro conjI) (rule run, simp add: rm, rule peaks_ready_handle, simp)
  have "snd (snd (save_data True (Some ''final_result'') peaks_ready)) =
      (if True then (snd peaks_ready)\<lparr>d_backing_file :=
          Some (\<lparr>filename = ''/out/run42.h5'', mode = ''r+'', is_open = True\<rparr>\<lparr>is_open := False\<rparr>)\<rparr>
       else snd peaks_ready)"
    using save_data_result [where close_ok = True and lt = "''final_result''" and s = peaks_ready
        and r = "Some (''/1-Peaks/data'', ''/out/run42.h5'')"
        and s' = "snd (save_data True (Some ''final_result'') peaks_ready)"
        and h = "\<lparr>filename = ''/out/run42.h5'', mode = ''r+'', is_open = True\<rparr>"] prem
    by blast
  then have closed: "d_backing_file (snd (snd (save_data True (Some ''final_result'') peaks_ready)))
      = Some \<lparr>filename = ''/out/run42.h5'', mode = ''r+'', is_open = False\<rparr>"
    by simp
  have skipped: "fst (save_data True (Some ''final_result'')
      (fst peaks_ready, (snd peaks_ready)\<lparr>d_remove := True\<rparr>)) = Inr None"
    using save_data_result [where close_ok = True and link_type = "Some ''final_result''"
        and s = "(fst peaks_ready, (snd peaks_ready)\<lparr>d_remove := True\<rparr>)"] skip
    by blast
  have nm: "h5_name [''1-Peaks'', ''data''] = ''/1-Peaks/data''"
    by (simp add: h5_name_def)
  show ?thesis
    by (intro conjI) (rule run, simp add: rm, rule peaks_ready_handle, rule dd, rule nm,
      rule closed, rule skip, rule skipped)
qed

section \<open>Allocation\<close>

text \<open>
  C5. In a backing file that is open for writing and does not hold the group yet,
  and for an element type that HDF5 has (any but numpy's objects), \<^verbatim>\<open>__create_entries\<close>
  returns and the array \<^verbatim>\<open>data\<close> of the group has the shape and element type of the
  descriptor. Without a hint (\<^verbatim>\<open>current_and_next is 0\<close>) its
  layout is contiguous; with a hint its chunk shape is the one the chunk planner
  returned for this shape and element type, unchanged.
\<close>

theorem create_entries_layout:
  assumes "exp_group_name (fst s) key = Some g0"
    and "g = (case d_name (snd s) of None \<Rightarrow> g0 | Some n \<Rightarrow> g0 @ ''_'' @ n)"
    and "d_backing_file (snd s) = Some bf" and "mode bf \<noteq> ''r''"
    and "disk (fst s) (filename bf) = Some c0"
    and "nodes c0 [] = Some Group" and "nodes c0 [g] = None" and "nodes c0 [g, ''data''] = None"
    and "is_open bf" and "d_dtype (snd s) \<noteq> ''object''"
  shows "\<exists>s' c. create_entries calculate_chunking key cn s = (Inr (g, [g]), s') \<and>
           backing_contents s' = Some c \<and> d_data (snd s') = Some [g, ''data''] \<and>
           nodes c [g, ''data''] =
             Some (Dataset (d_shape (snd s)) (d_dtype (snd s))
                     (case cn of
                        IntZero \<Rightarrow> None
                      | Hint h \<Rightarrow> Some (calculate_chunking h (d_shape (snd s)) (d_dtype (snd s))))
                     (replicate (prod_list (d_shape (snd s))) 0))"
  using assms
  by (cases cn)
     (simp_all add: create_entries_def andthen_def barrier_def reading_def
        update_data_def backing_write_def emit_def ret_def backing_contents_def
        h5_create_group_def h5_set_attr_def h5_create_dataset_def)

theorem create_entries_layout_witness:
  "(\<exists>s' c. create_entries frame_chunks ''Peaks'' IntZero peaks_opened =
             (Inr (''1-Peaks'', [''1-Peaks'']), s') \<and>
           backing_contents s' = Some c \<and> d_data (snd s') = Some [''1-Peaks'', ''data''] \<and>
           nodes c [''1-Peaks'', ''data''] =
             Some (Dataset [2, 3] ''float32'' None (replicate 6 0))) \<and>
   (\<exists>s' c. create_entries frame_chunks ''Peaks'' (Hint ()) peaks_opened =
             (Inr (''1-Peaks'', [''1-Peaks'']), s') \<and>
           backing_contents s' = Some c \<and> d_data (snd s') = Some [''1-Peaks'', ''data''] \<and>
           nodes c [''1-Peaks'', ''data''] =
             Some (Dataset [2, 3] ''float32'' (Some [1, 3]) (replicate 6 0)))"
proof -
  have h1: "exp_group_name (fst peaks_opened) ''Peaks'' = Some ''1-Peaks''"
    by (simp add: peaks_opened_def peaks_defs)
  have h2: "''1-Peaks'' = (case d_name (snd peaks_opened) of None \<Rightarrow> ''1-Peaks''
                           | Some n \<Rightarrow> ''1-Peaks'' @ ''_'' @ n)"
    by (simp add: peaks_opened_def peaks_defs)
  have h3: "d_backing_file (snd peaks_opened) = Some \<lparr>filename = ''/out/run42.h5'', mode = ''r+'', is_open = True\<rparr>"
    by (simp add: peaks_opened_def peaks_defs)
  have h4: "mode \<lparr>filename = ''/out/run42.h5'', mode = ''r+'', is_open = True\<rparr> \<noteq> ''r''"
    by simp
  have h5: "disk (fst peaks_opened) (filename \<lparr>filename = ''/out/run42.h5'', mode = ''r+'', is_open = True\<rparr>)
      = Some h5_empty"
    by (simp add: peaks_opened_def peaks_defs)
  have h6: "nodes h5_empty [] = Some Group" "nodes h5_empty [''1-Peaks''] = None"
    "nodes h5_empty [''1-Peaks'', ''data''] = None"
    by (simp_all add: h5_empty_def)
  have sh: "d_shape (snd peaks_opened) = [2, 3]" "d_dtype (snd peaks_opened) = ''float32''"
    by (simp_all add: peaks_opened_def peaks_defs)
  have h7: "is_open \<lparr>filename = ''/out/run42.h5'', mode = ''r+'', is_open = True\<rparr>"
    "d_dtype (snd peaks_opened) \<noteq> ''object''"
    by (simp_all add: sh)
  have pr: "prod_list [2, 3] = (6::nat)" "frame_chunks () [2, 3] ''float32'' = [1, 3]"
    by (simp_all add: frame_chunks_def)
  show ?thesis
    using create_entries_layout [OF h1 h2 h3 h4 h5 h6 h7, where calculate_chunking = frame_chunks
        and cn = IntZero]
      create_entries_layout [OF h1 h2 h3 h4 h5 h6 h7, where calculate_chunking = frame_chunks
        and cn = "Hint ()"]
    by (simp add: sh frame_chunks_def)
qed

section \<open>Linking\<close>

lemma barrier_Inr: "barrier s = (Inr a, s') \<Longrightarrow> snd s' = snd s \<and> nxs_file (fst s') = nxs_file (fst s) \<and> disk (fst s') = disk (fst s)"
  by (auto simp: barrier_def)

lemma reading_Inr: "reading g s = (Inr a, s') \<longleftrightarrow> g s = Inr a \<and> s' = s"
  by (auto simp: reading_def)

text \<open>
  A call of \<^verbatim>\<open>__add_data_links\<close> that returns has come, through the metadata writes,
  to a state from which only the registration of the link and a barrier remain; up to
  there the link type plays no part.
\<close>

lemma add_data_links_prefix:
  assumes "add_data_links lt0 s = (Inr u, s')"
  obtains sP h where
    "\<And>lt. add_data_links lt s =
        andthen (register_link lt [''entry''] (split_last (filename h))) (\<lambda>_. barrier) sP"
    and "nxs_file (fst sP) = nxs_file (fst s)" and "snd sP = snd s"
    and "d_backing_file (snd s) = Some h"
proof -
  from assms obtain a1 s1 a2 s2 entry s3 gn s4 b s5 a6 s6 fname s7 where
    1: "barrier s = (Inr a1, s1)" and
    2: "logging ''Adding link to file'' s1 = (Inr a2, s2)" and
    3: "reading (\<lambda>s. h5_getitem [] ''entry'' (nxs_file (fst s))) s2 = (Inr entry, s3)" and
    4: "reading (\<lambda>s. case info_group_name (snd s) of None \<Rightarrow> Inl KeyError | Some g \<Rightarrow> Inr g) s3
          = (Inr gn, s4)" and
    5: "backing_getitem gn s4 = (Inr b, s5)" and
    6: "output_metadata b s5 = (Inr a6, s6)" and
    7: "reading (file_attr (\<lambda>h. split_last (filename h))) s6 = (Inr fname, s7)"
    unfolding add_data_links_def andthen_Inr by blast
  have e: "entry = [''entry'']"
    using 3 by (auto simp: reading_Inr h5_getitem_def split: option.splits)
  have d1: "snd s1 = snd s" "nxs_file (fst s1) = nxs_file (fst s)"
    using 1 by (auto simp: barrier_def)
  have d2: "snd s2 = snd s1" "nxs_file (fst s2) = nxs_file (fst s1)"
    using 2 by (auto simp: logging_def)
  have d3: "s3 = s2" using 3 by (simp add: reading_Inr)
  have d4: "s4 = s3" using 4 by (simp add: reading_Inr)
  have d5: "s5 = s4" using 5 by (simp add: backing_getitem_def reading_Inr)
  have d6: "snd s6 = snd s5" "nxs_file (fst s6) = nxs_file (fst s5)"
    using keepsD[OF keeps_data_output_metadata 6] keepsD[OF keeps_master_output_metadata 6]
    by simp_all
  have d7: "s7 = s6" using 7 by (simp add: reading_Inr)
  from 7 obtain h where h: "d_backing_file (snd s6) = Some h" "fname = split_last (filename h)"
    by (auto simp: reading_Inr file_attr_def split: option.splits if_splits)
  have "\<And>lt. add_data_links lt s =
        andthen (register_link lt [''entry''] (split_last (filename h))) (\<lambda>_. barrier) s7"
    using 1 2 3 4 5 6 7 e h(2) by (simp add: add_data_links_def andthen_def)
  moreover have "nxs_file (fst s7) = nxs_file (fst s)" "snd s7 = snd s"
    using d1 d2 d3 d4 d5 d6 d7 by simp_all
  moreover have "d_backing_file (snd s) = Some h"
    using h(1) d1 d2 d3 d4 d5 d6 by simp
  ultimately show ?thesis
    using that by blast
qed


lemma h5_set_attr_Inr:
  assumes "h5_set_attr p key v c = Inr c'"
  shows "nodes c' = nodes c" and "attrs c' = (attrs c)((p, key) \<mapsto> v)"
  using assms by (auto simp: h5_set_attr_def split: if_splits)






lemma peaks_link_final: "fst (add_data_links ''final_result'' peaks_ready) = Inr ()"
  by code_simp




text \<open>
  C1, as the code has it. For a link type that is neither \<^verbatim>\<open>final_result\<close> nor
  \<^verbatim>\<open>intermediate\<close>, \<^verbatim>\<open>__add_data_links\<close> never returns normally and never changes
  the master index or the descriptor. The link type is looked at after the metadata
  has been written: on a descriptor that could be linked as a final result, the call
  raises the exception for an unknown link type and leaves the files on disk exactly
  as the successful link would, with the axis labels, patterns and meta data written
  to the backing file.
\<close>

theorem add_data_links_unknown_kind:
  assumes "lt \<noteq> ''final_result''" and "lt \<noteq> ''intermediate''"
  shows "(add_data_links lt s = (r, s') \<longrightarrow>
            (\<exists>e. r = Inl e) \<and> nxs_file (fst s') = nxs_file (fst s) \<and> snd s' = snd s) \<and>
         (add_data_links ''final_result'' s = (Inr u, s1) \<longrightarrow>
            (\<exists>s2. add_data_links lt s = (Inl LinkTypeNotKnown, s2) \<and>
                  disk (fst s2) = disk (fst s1) \<and> nxs_file (fst s2) = nxs_file (fst s)))"
proof (rule conjI; rule impI)
  assume run: "add_data_links lt s = (r, s')"
  have raises: "register_link lt = (\<lambda>e f. raise LinkTypeNotKnown)"
    using assms by (auto simp: register_link_def fun_eq_iff)
  have "keeps (\<lambda>s. nxs_file (fst s)) (add_data_links lt)"
    unfolding add_data_links_def raises
    by (intro keeps_master keeps_master_output_metadata)
  from keepsD[OF this run] have "nxs_file (fst s') = nxs_file (fst s)" .
  moreover from keepsD[OF keeps_data_add_data_links run] have "snd s' = snd s" .
  moreover have "\<exists>e. r = Inl e"
  proof (cases r)
    case (Inr a)
    with run add_data_links_kind assms show ?thesis by blast
  qed simp
  ultimately show "(\<exists>e. r = Inl e) \<and> nxs_file (fst s') = nxs_file (fst s) \<and> snd s' = snd s"
    by simp
next
  assume run: "add_data_links ''final_result'' s = (Inr u, s1)"
  then obtain sP h where
    eq: "\<And>lt. add_data_links lt s =
        andthen (register_link lt [''entry''] (split_last (filename h))) (\<lambda>_. barrier) sP"
    and m: "nxs_file (fst sP) = nxs_file (fst s)" and d: "snd sP = snd s"
    and h: "d_backing_file (snd s) = Some h"
    by (rule add_data_links_prefix) blast
  have raises: "register_link lt = (\<lambda>e f. raise LinkTypeNotKnown)"
    using assms by (auto simp: register_link_def fun_eq_iff)
  have "keeps (\<lambda>s. disk (fst s))
      (andthen (register_link ''final_result'' [''entry''] (split_last (filename h))) (\<lambda>_. barrier))"
    by (intro keeps_disk keeps_disk_register_link)
  from keepsD[OF this] run eq have "disk (fst s1) = disk (fst sP)"
    by metis
  moreover have "add_data_links lt s = (Inl LinkTypeNotKnown, sP)"
    unfolding eq raises by (simp add: andthen_def raise_def)
  ultimately show "\<exists>s2. add_data_links lt s = (Inl LinkTypeNotKnown, s2) \<and>
                  disk (fst s2) = disk (fst s1) \<and> nxs_file (fst s2) = nxs_file (fst s)"
    using m by simp
qed

lemma peaks_link_bogus_written:
  "nodes (the (backing_contents (snd (add_data_links ''bogus'' peaks_ready))))
     [''1-Peaks'', ''patterns''] = Some Group"
  by code_simp

theorem add_data_links_unknown_kind_witness:
  "(\<exists>s2. add_data_links ''bogus'' peaks_ready = (Inl LinkTypeNotKnown, s2) \<and>
         disk (fst s2) = disk (fst (snd (add_data_links ''final_result'' peaks_ready))) \<and>
         nxs_file (fst s2) = nxs_file (fst peaks_ready))"
proof -
  have f: "add_data_links ''final_result'' peaks_ready =
      (Inr (), snd (add_data_links ''final_result'' peaks_ready))"
    using peaks_link_final by (metis prod.collapse)
  have "''bogus'' \<noteq> ''final_result''" "''bogus'' \<noteq> ''intermediate''"
    by simp_all
  from add_data_links_unknown_kind [OF this, where s = peaks_ready and u = "()"
      and ?s1.0 = "snd (add_data_links ''final_result'' peaks_ready)"] f
  show ?thesis by blast
qed

text \<open>
  C1 as stated fails: for the link type \<^verbatim>\<open>bogus\<close> the exception is raised after the
  group \<^verbatim>\<open>patterns\<close> has been created in the backing file of \<^verbatim>\<open>Peaks\<close>.
\<close>

theorem add_data_links_unknown_kind_mutates:
  "fst (add_data_links ''bogus'' peaks_ready) = Inl LinkTypeNotKnown \<and>
   nodes (the (backing_contents peaks_ready)) [''1-Peaks'', ''patterns''] = None \<and>
   nodes (the (backing_contents (snd (add_data_links ''bogus'' peaks_ready))))
     [''1-Peaks'', ''patterns''] = Some Group"
proof -
  have "fst (add_data_links ''bogus'' peaks_ready) = Inl LinkTypeNotKnown"
    by code_simp
  moreover have "nodes (the (backing_contents peaks_ready)) [''1-Peaks'', ''patterns''] = None"
    by code_simp
  ultimately show ?thesis
    using peaks_link_bogus_written by simp
qed

section \<open>Axis labels\<close>

lemma backing_write_Inr:
  assumes "backing_write k op s = (Inr u, s')"
  shows "\<exists>c c'. backing_contents s = Some c \<and> op c = Inr c' \<and> backing_contents s' = Some c' \<and>
           snd s' = snd s"
  using assms
  by (auto simp: backing_write_def backing_contents_def split: option.splits if_splits sum.splits)

lemma h5_create_dataset_Inr:
  assumes "h5_create_dataset p nm shape dt chunks c = Inr c'"
  shows "nodes c (p @ [nm]) = None"
    and "nodes c' = (nodes c)(p @ [nm] \<mapsto> Dataset shape dt chunks (replicate (prod_list shape) 0))"
    and "attrs c' = attrs c"
  using assms by (auto simp: h5_create_dataset_def split: if_splits)

lemma h5_write_dataset_Inr:
  assumes "h5_write_dataset p elems c = Inr c'"
  shows "\<exists>shape dt chunks old. nodes c p = Some (Dataset shape dt chunks old) \<and>
           nodes c' = (nodes c)(p \<mapsto> Dataset shape dt chunks elems)"
    and "attrs c' = attrs c"
  using assms by (auto simp: h5_write_dataset_def split: option.splits node.splits)

text \<open>The value the loop writes for a label is the one asked for.\<close>

lemma label_value_spec:
  assumes "(case map_of (d_meta_data d) name of Some v \<Rightarrow> Inr v | None \<Rightarrow> arange_axis (d_shape d) n)
             = Inr v0"
  shows "as_array v0 = spec_label_array d n name"
  using assms
  by (auto simp: spec_label_array_def arange_axis_def split: option.splits if_splits pyval.splits)

text \<open>One round of the loop of \<^verbatim>\<open>__output_axis_labels\<close>.\<close>

lemma axis_loop_step:
  assumes "output_axis_labels_loop (l # rest) n entry s = (Inr u, s')"
    and "d_group (snd s) = Some g"
  obtains s4 c0 c4 where
    "backing_contents s = Some c0" and "backing_contents s4 = Some c4" and "snd s4 = snd s"
    and "output_axis_labels_loop rest (Suc n) entry s4 = (Inr u, s')"
    and "nodes c0 (g @ [fst l]) = None"
    and "nodes c4 = (nodes c0)(g @ [fst l] \<mapsto>
           Dataset (pyval_shape (spec_label_array (snd s) n (fst l)))
             (pyval_dtype (spec_label_array (snd s) n (fst l))) None
             (pyval_elems (spec_label_array (snd s) n (fst l))))"
    and "attrs c4 = (attrs c0)((entry, fst l @ ''_indices'') \<mapsto> AttrInt (int n),
                               (g @ [fst l], ''units'') \<mapsto> AttrStr (snd l))"
proof -
  from assms(1) obtain a1 s1 v0 s1' g' s1'' a2 s2 a3 s3 a4 s4 where
    w1: "backing_write OpAxisLabels
           (h5_set_attr entry (fst l @ ''_indices'') (AttrInt (int n))) s = (Inr a1, s1)" and
    r1: "reading (\<lambda>s. case map_of (d_meta_data (snd s)) (fst l) of
                        Some v \<Rightarrow> Inr v
                      | None \<Rightarrow> arange_axis (d_shape (snd s)) n) s1 = (Inr v0, s1')" and
    r2: "reading (\<lambda>s. case d_group (snd s) of
                        None \<Rightarrow> Inl AttributeError
                      | Some g \<Rightarrow> if has_shape (as_array v0) then Inr g else Inl AttributeError) s1'
           = (Inr g', s1'')" and
    w2: "backing_write OpAxisLabels
           (h5_create_dataset g' (fst l) (pyval_shape (as_array v0)) (pyval_dtype (as_array v0)) None)
           s1'' = (Inr a2, s2)" and
    w3: "backing_write OpAxisLabels
           (h5_write_dataset (g' @ [fst l]) (pyval_elems (as_array v0))) s2 = (Inr a3, s3)" and
    w4: "backing_write OpAxisLabels
           (h5_set_attr (g' @ [fst l]) ''units'' (AttrStr (snd l))) s3 = (Inr a4, s4)" and
    rest: "output_axis_labels_loop rest (Suc n) entry s4 = (Inr u, s')"
    by (auto simp: andthen_Inr ret_def)
  from backing_write_Inr[OF w1] obtain c0 c1 where
    c0: "backing_contents s = Some c0" and
    o1: "h5_set_attr entry (fst l @ ''_indices'') (AttrInt (int n)) c0 = Inr c1" and
    c1: "backing_contents s1 = Some c1" and d1: "snd s1 = snd s"
    by blast
  from r1 have e1: "s1' = s1" and "as_array v0 = spec_label_array (snd s1) n (fst l)"
    by (auto simp: reading_Inr label_value_spec)
  then have v0: "as_array v0 = spec_label_array (snd s) n (fst l)"
    using d1 by simp
  from r2 have e2: "s1'' = s1'" and g': "g' = g"
    using assms(2) d1 e1 by (auto simp: reading_Inr split: option.splits if_splits)
  from backing_write_Inr[OF w2] obtain c2 where
    o2: "h5_create_dataset g (fst l) (pyval_shape (as_array v0)) (pyval_dtype (as_array v0)) None c1
           = Inr c2" and
    c2: "backing_contents s2 = Some c2" and d2: "snd s2 = snd s"
    using c1 d1 e1 e2 g' by auto
  from backing_write_Inr[OF w3] obtain c3 where
    o3: "h5_write_dataset (g @ [fst l]) (pyval_elems (as_array v0)) c2 = Inr c3" and
    c3: "backing_contents s3 = Some c3" and d3: "snd s3 = snd s"
    using c2 d2 g' by auto
  from backing_write_Inr[OF w4] obtain c4 where
    o4: "h5_set_attr (g @ [fst l]) ''units'' (AttrStr (snd l)) c3 = Inr c4" and
    c4: "backing_contents s4 = Some c4" and d4: "snd s4 = snd s"
    using c3 d3 g' by auto
  note n1 = h5_set_attr_Inr[OF o1]
  note n2 = h5_create_dataset_Inr[OF o2]
  note n3 = h5_write_dataset_Inr[OF o3]
  note n4 = h5_set_attr_Inr[OF o4]
  have fresh: "nodes c0 (g @ [fst l]) = None"
    using n1(1) n2(1) by simp
  have nodes4: "nodes c4 = (nodes c0)(g @ [fst l] \<mapsto>
           Dataset (pyval_shape (spec_label_array (snd s) n (fst l)))
             (pyval_dtype (spec_label_array (snd s) n (fst l))) None
             (pyval_elems (spec_label_array (snd s) n (fst l))))"
    using n1(1) n2(2) n3(1) n4(1) v0 by auto
  have attrs4: "attrs c4 = (attrs c0)((entry, fst l @ ''_indices'') \<mapsto> AttrInt (int n),
                               (g @ [fst l], ''units'') \<mapsto> AttrStr (snd l))"
    using n1(2) n2(3) n3(2) n4(2) by simp
  from c0 c4 d4 rest fresh nodes4 attrs4 show ?thesis
    by (rule that)
qed

lemma indices_not_units: "nm @ ''_indices'' \<noteq> ''units''"
proof
  assume "nm @ ''_indices'' = ''units''"
  then have "length (nm @ ''_indices'') = length ''units''" by simp
  then show False by simp
qed

text \<open>The loop keeps the nodes that exist and their units.\<close>

lemma axis_loop_preserves:
  assumes "output_axis_labels_loop ls n entry s = (Inr u, s')"
    and "d_group (snd s) = Some g" and "backing_contents s = Some c" and "nodes c p = Some nd"
  shows "\<exists>c'. backing_contents s' = Some c' \<and> nodes c' p = Some nd \<and>
           attrs c' (p, ''units'') = attrs c (p, ''units'')"
  using assms
proof (induction ls arbitrary: n s c)
  case Nil
  then show ?case by (simp add: ret_def)
next
  case (Cons l rest)
  from Cons.prems(1,2) obtain s4 c0 c4 where
    c0: "backing_contents s = Some c0" and c4: "backing_contents s4 = Some c4"
    and d4: "snd s4 = snd s"
    and rest: "output_axis_labels_loop rest (Suc n) entry s4 = (Inr u, s')"
    and fresh: "nodes c0 (g @ [fst l]) = None"
    and nodes4: "nodes c4 = (nodes c0)(g @ [fst l] \<mapsto>
           Dataset (pyval_shape (spec_label_array (snd s) n (fst l)))
             (pyval_dtype (spec_label_array (snd s) n (fst l))) None
             (pyval_elems (spec_label_array (snd s) n (fst l))))"
    and attrs4: "attrs c4 = (attrs c0)((entry, fst l @ ''_indices'') \<mapsto> AttrInt (int n),
                               (g @ [fst l], ''units'') \<mapsto> AttrStr (snd l))"
    by (rule axis_loop_step) blast
  have cc: "c0 = c" using c0 Cons.prems(3) by simp
  have ne: "p \<noteq> g @ [fst l]" using fresh Cons.prems(4) cc by auto
  have "nodes c4 p = Some nd" using nodes4 ne Cons.prems(4) cc by simp
  moreover have "d_group (snd s4) = Some g" using d4 Cons.prems(2) by simp
  ultimately obtain c' where "backing_contents s' = Some c'" "nodes c' p = Some nd"
    "attrs c' (p, ''units'') = attrs c4 (p, ''units'')"
    using Cons.IH[OF rest _ c4] by blast
  moreover have "attrs c4 (p, ''units'') = attrs c (p, ''units'')"
    using attrs4 ne cc indices_not_units by simp
  ultimately show ?case by simp
qed

lemma barrier_contents:
  assumes "barrier s = (Inr a, s')"
  shows "backing_contents s' = backing_contents s" and "snd s' = snd s"
  using assms by (auto simp: barrier_def backing_contents_def split: option.splits)

text \<open>After the loop every label has its array and its units.\<close>

lemma axis_loop_writes:
  assumes "output_axis_labels_loop ls n entry s = (Inr u, s')"
    and "d_group (snd s) = Some g" and "i < length ls"
  shows "\<exists>c'. backing_contents s' = Some c' \<and>
           nodes c' (g @ [fst (ls ! i)]) =
             Some (Dataset (pyval_shape (spec_label_array (snd s) (n + i) (fst (ls ! i))))
                     (pyval_dtype (spec_label_array (snd s) (n + i) (fst (ls ! i)))) None
                     (pyval_elems (spec_label_array (snd s) (n + i) (fst (ls ! i))))) \<and>
           attrs c' (g @ [fst (ls ! i)], ''units'') = Some (AttrStr (snd (ls ! i)))"
  using assms
proof (induction ls arbitrary: n s i)
  case Nil
  then show ?case by simp
next
  case (Cons l rest)
  from Cons.prems(1,2) obtain s4 c0 c4 where
    c0: "backing_contents s = Some c0" and c4: "backing_contents s4 = Some c4"
    and d4: "snd s4 = snd s"
    and rest: "output_axis_labels_loop rest (Suc n) entry s4 = (Inr u, s')"
    and fresh: "nodes c0 (g @ [fst l]) = None"
    and nodes4: "nodes c4 = (nodes c0)(g @ [fst l] \<mapsto>
           Dataset (pyval_shape (spec_label_array (snd s) n (fst l)))
             (pyval_dtype (spec_label_array (snd s) n (fst l))) None
             (pyval_elems (spec_label_array (snd s) n (fst l))))"
    and attrs4: "attrs c4 = (attrs c0)((entry, fst l @ ''_indices'') \<mapsto> AttrInt (int n),
                               (g @ [fst l], ''units'') \<mapsto> AttrStr (snd l))"
    by (rule axis_loop_step) blast
  have g4: "d_group (snd s4) = Some g" using d4 Cons.prems(2) by simp
  show ?case
  proof (cases i)
    case 0
    have "nodes c4 (g @ [fst l]) =
        Some (Dataset (pyval_shape (spec_label_array (snd s) n (fst l)))
             (pyval_dtype (spec_label_array (snd s) n (fst l))) None
             (pyval_elems (spec_label_array (snd s) n (fst l))))"
      using nodes4 by simp
    from axis_loop_preserves[OF rest g4 c4 this] obtain c' where
      "backing_contents s' = Some c'"
      "nodes c' (g @ [fst l]) =
        Some (Dataset (pyval_shape (spec_label_array (snd s) n (fst l)))
             (pyval_dtype (spec_label_array (snd s) n (fst l))) None
             (pyval_elems (spec_label_array (snd s) n (fst l))))"
      "attrs c' (g @ [fst l], ''units'') = attrs c4 (g @ [fst l], ''units'')"
      by blast
    then show ?thesis using 0 attrs4 by simp
  next
    case (Suc j)
    then have "j < length rest" using Cons.prems(3) by simp
    from Cons.IH[OF rest g4 this] show ?thesis
      using Suc d4 by simp
  qed
qed

text \<open>What \<^verbatim>\<open>__output_axis_labels\<close> has written when it returns.\<close>

lemma output_axis_labels_writes:
  assumes "output_axis_labels entry s = (Inr u, s')" and "d_group (snd s) = Some g"
  shows "\<exists>c. backing_contents s' = Some c \<and>
           attrs c (entry, ''axes'') = Some (AttrStrs (map fst (info_axis_labels (snd s)))) \<and>
           (\<forall>i < length (info_axis_labels (snd s)).
              nodes c (g @ [fst (info_axis_labels (snd s) ! i)]) =
                Some (Dataset
                  (pyval_shape (spec_label_array (snd s) i (fst (info_axis_labels (snd s) ! i))))
                  (pyval_dtype (spec_label_array (snd s) i (fst (info_axis_labels (snd s) ! i))))
                  None
                  (pyval_elems (spec_label_array (snd s) i (fst (info_axis_labels (snd s) ! i))))) \<and>
              attrs c (g @ [fst (info_axis_labels (snd s) ! i)], ''units'') =
                Some (AttrStr (snd (info_axis_labels (snd s) ! i))))"
proof -
  from assms(1) obtain a1 s1 a2 s2 a3 s3 where
    b1: "barrier s = (Inr a1, s1)" and
    loop: "output_axis_labels_loop (info_axis_labels (snd s1)) 0 entry s1 = (Inr a2, s2)" and
    w: "backing_write OpAxisLabels
          (h5_set_attr entry ''axes'' (AttrStrs (map fst (info_axis_labels (snd s1))))) s2
          = (Inr a3, s3)" and
    b2: "barrier s3 = (Inr u, s')"
    by (auto simp: output_axis_labels_def andthen_Inr reading_Inr)
  note d1 = barrier_contents(2)[OF b1]
  have g1: "d_group (snd s1) = Some g" using d1 assms(2) by simp
  from backing_write_Inr[OF w] obtain c2 c3 where
    c2: "backing_contents s2 = Some c2" and
    o: "h5_set_attr entry ''axes'' (AttrStrs (map fst (info_axis_labels (snd s1)))) c2 = Inr c3" and
    c3: "backing_contents s3 = Some c3"
    by blast
  note n = h5_set_attr_Inr[OF o]
  have c': "backing_contents s' = Some c3"
    using barrier_contents(1)[OF b2] c3 by simp
  have axes: "attrs c3 (entry, ''axes'') = Some (AttrStrs (map fst (info_axis_labels (snd s))))"
    using n(2) d1 by simp
  have each: "nodes c3 (g @ [fst (info_axis_labels (snd s) ! i)]) =
                Some (Dataset
                  (pyval_shape (spec_label_array (snd s) i (fst (info_axis_labels (snd s) ! i))))
                  (pyval_dtype (spec_label_array (snd s) i (fst (info_axis_labels (snd s) ! i))))
                  None
                  (pyval_elems (spec_label_array (snd s) i (fst (info_axis_labels (snd s) ! i))))) \<and>
              attrs c3 (g @ [fst (info_axis_labels (snd s) ! i)], ''units'') =
                Some (AttrStr (snd (info_axis_labels (snd s) ! i)))"
    if "i < length (info_axis_labels (snd s))" for i
  proof -
    from that have "i < length (info_axis_labels (snd s1))" using d1 by simp
    from axis_loop_writes[OF loop g1 this] c2 n show ?thesis
      using d1 by auto
  qed
  from c' axes each show ?thesis by blast
qed

lemma peaks_ready_data:
  "snd peaks_ready =
     \<lparr>d_name = None, d_get_name = ''Peaks'', d_shape = [2, 3], d_dtype = ''float32'',
      d_remove = False,
      d_backing_file = Some \<lparr>filename = ''/out/run42.h5'', mode = ''r+'', is_open = True\<rparr>,
      d_group_name = Some ''1-Peaks'', d_group = Some [''1-Peaks''],
      d_data = Some [''1-Peaks'', ''data''], info_group_name = Some ''1-Peaks'',
      info_name = ''Peaks'',
      info_axis_labels = [(''frames'', ''index''), (''position'', ''idx'')],
      info_data_patterns = [(''CHANNEL'', [0], [1]), (''SPECTRUM'', [1], [0])],
      d_meta_data = [(''position'', PyList [10, 20, 30])]\<rparr>"
  unfolding peaks_ready_def
  by (simp add: run_defs peaks_defs)

section \<open>Reopening\<close>

text \<open>
  Without \<^verbatim>\<open>mpi\<close>, \<^verbatim>\<open>_open_read_only\<close> opens the file as it is on disk and binds the
  array again.
\<close>

lemma open_read_only_serial:
  assumes "\<not> mpi (fst s)" and "disk (fst s) fname = Some c"
    and "nodes c (split_path entry) = Some nd"
  shows "\<exists>s'. open_read_only fname entry s = (Inr (), s') \<and> disk (fst s') = disk (fst s) \<and>
           d_backing_file (snd s') = Some \<lparr>filename = fname, mode = ''r'', is_open = True\<rparr> \<and>
           d_data (snd s') = Some (split_path entry)"
  using assms
  by (simp add: open_read_only_def open_backing_h5_def h5py_File_def backing_getitem_path_def
      andthen_def logging_def barrier_def ret_def reading_def update_data_def)

text \<open>
  With \<^verbatim>\<open>mpi\<close>, \<^verbatim>\<open>__open_backing_h5\<close> passes the literal \<^verbatim>\<open>'w'\<close> to \<^verbatim>\<open>h5py.File\<close>
  instead of its argument \<^verbatim>\<open>mode\<close>: reopening creates the file anew and what was
  written is gone.
\<close>

lemma open_read_only_mpi:
  assumes "mpi (fst s)"
  shows "disk (fst (snd (open_read_only fname entry s))) fname = Some h5_empty"
  using assms
  by (simp add: open_read_only_def open_backing_h5_def h5py_File_def backing_getitem_path_def
      andthen_def logging_def barrier_def ret_def reading_def update_data_def
      split: option.splits)

text \<open>
  C8 fails on the code. The run of \<^verbatim>\<open>Peaks\<close> with \<^verbatim>\<open>mpi\<close> set: the metadata is
  written and the file closed by \<^verbatim>\<open>_save_data\<close>, which returns the array path and
  the file name; reopening with these through \<^verbatim>\<open>_open_read_only\<close> raises
  \<^verbatim>\<open>KeyError\<close>, and the label array that had been written is no longer in the file.
\<close>

theorem reopen_under_mpi_loses_metadata:
  "fst (save_data True (Some ''final_result'')
         (snd (setup_one frame_chunks ''Peaks'' IntZero (peaks_exp\<lparr>mpi := True\<rparr>, peaks_data))))
     = Inr (Some (''/1-Peaks/data'', ''/out/run42.h5'')) \<and>
   nodes (the (disk (fst (snd (save_data True (Some ''final_result'')
         (snd (setup_one frame_chunks ''Peaks'' IntZero (peaks_exp\<lparr>mpi := True\<rparr>, peaks_data))))))
       ''/out/run42.h5'')) [''1-Peaks'', ''position'']
     = Some (Dataset [3] ''int64'' None [10, 20, 30]) \<and>
   fst (open_read_only ''/out/run42.h5'' ''/1-Peaks/data''
         (snd (save_data True (Some ''final_result'')
           (snd (setup_one frame_chunks ''Peaks'' IntZero (peaks_exp\<lparr>mpi := True\<rparr>, peaks_data))))))
     = Inl KeyError \<and>
   nodes (the (disk (fst (snd (open_read_only ''/out/run42.h5'' ''/1-Peaks/data''
         (snd (save_data True (Some ''final_result'')
           (snd (setup_one frame_chunks ''Peaks'' IntZero (peaks_exp\<lparr>mpi := True\<rparr>, peaks_data))))))))
       ''/out/run42.h5'')) [''1-Peaks'', ''position'']
     = None"
  by code_simp

text \<open>The same run without \<^verbatim>\<open>mpi\<close> reads the label array back.\<close>

lemma reopen_serial_reads_back:
  "fst (open_read_only ''/out/run42.h5'' ''/1-Peaks/data''
         (snd (save_data True (Some ''final_result'') peaks_ready))) = Inr () \<and>
   nodes (the (disk (fst (snd (open_read_only ''/out/run42.h5'' ''/1-Peaks/data''
         (snd (save_data True (Some ''final_result'') peaks_ready)))))
       ''/out/run42.h5'')) [''1-Peaks'', ''position'']
     = Some (Dataset [3] ''int64'' None [10, 20, 30])"
  by code_simp

section \<open>Axis labels: returning\<close>

lemma backing_write_returns:
  assumes "d_backing_file (snd s) = Some h" and "mode h \<noteq> ''r''" and "is_open h"
    and "backing_contents s = Some c" and "op c = Inr c'"
  shows "\<exists>s'. backing_write k op s = (Inr (), s') \<and> backing_contents s' = Some c' \<and>
           snd s' = snd s"
  using assms
  by (auto simp: backing_write_def backing_contents_def)

lemma label_ok_value:
  assumes "label_ok d n name"
  shows "\<exists>v0. (case map_of (d_meta_data d) name of Some v \<Rightarrow> Inr v
                | None \<Rightarrow> arange_axis (d_shape d) n) = Inr v0 \<and> has_shape (as_array v0) \<and>
              pyval_dtype (as_array v0) \<noteq> ''object''"
  using assms
  by (auto simp: label_ok_def arange_axis_def split: option.splits pyval.splits)

text \<open>One round of the loop returns when the label can be written.\<close>

lemma axis_loop_round:
  assumes h: "d_backing_file (snd s) = Some h" "mode h \<noteq> ''r''" "is_open h"
    and c: "backing_contents s = Some c"
    and g: "d_group (snd s) = Some g" "nodes c g = Some Group"
    and e: "nodes c entry \<noteq> None"
    and fresh: "nodes c (g @ [fst l]) = None"
    and ok: "label_ok (snd s) n (fst l)"
  shows "\<exists>s4 c4. output_axis_labels_loop (l # rest) n entry s =
                    output_axis_labels_loop rest (Suc n) entry s4 \<and>
           backing_contents s4 = Some c4 \<and> snd s4 = snd s \<and>
           (\<forall>p. p \<noteq> g @ [fst l] \<longrightarrow> nodes c4 p = nodes c p) \<and>
           nodes c4 (g @ [fst l]) \<noteq> None"
proof -
  define c1 where "c1 = c\<lparr>attrs := (attrs c)((entry, fst l @ ''_indices'') \<mapsto> AttrInt (int n))\<rparr>"
  have o1: "h5_set_attr entry (fst l @ ''_indices'') (AttrInt (int n)) c = Inr c1"
    using e by (simp add: h5_set_attr_def c1_def)
  have "\<exists>s'. backing_write OpAxisLabels
           (h5_set_attr entry (fst l @ ''_indices'') (AttrInt (int n))) s = (Inr (), s') \<and>
         backing_contents s' = Some c1 \<and> snd s' = snd s"
    by (rule backing_write_returns[OF h c]) (rule o1)
  then obtain s1 where
    w1: "backing_write OpAxisLabels
           (h5_set_attr entry (fst l @ ''_indices'') (AttrInt (int n))) s = (Inr (), s1)"
    and c1: "backing_contents s1 = Some c1" and d1: "snd s1 = snd s"
    by blast
  from label_ok_value[OF ok] obtain v0 where
    v: "(case map_of (d_meta_data (snd s)) (fst l) of Some v \<Rightarrow> Inr v
          | None \<Rightarrow> arange_axis (d_shape (snd s)) n) = Inr v0"
    and sh: "has_shape (as_array v0)"
    and dt: "pyval_dtype (as_array v0) \<noteq> ''object''"
    by blast
  have v0: "(case map_of (d_meta_data (snd s1)) (fst l) of Some v \<Rightarrow> Inr v
          | None \<Rightarrow> arange_axis (d_shape (snd s1)) n) = Inr v0"
    unfolding d1 by (rule v)
  define c2 where "c2 = c1\<lparr>nodes := (nodes c1)(g @ [fst l] \<mapsto>
      Dataset (pyval_shape (as_array v0)) (pyval_dtype (as_array v0)) None
        (replicate (prod_list (pyval_shape (as_array v0))) 0))\<rparr>"
  have o2: "h5_create_dataset g (fst l) (pyval_shape (as_array v0)) (pyval_dtype (as_array v0))
      None c1 = Inr c2"
    using g(2) fresh dt by (simp add: h5_create_dataset_def c1_def c2_def)
  have h1: "d_backing_file (snd s1) = Some h" using h(1) d1 by simp
  have "\<exists>s'. backing_write OpAxisLabels
           (h5_create_dataset g (fst l) (pyval_shape (as_array v0)) (pyval_dtype (as_array v0)) None) s1 = (Inr (), s') \<and>
         backing_contents s' = Some c2 \<and> snd s' = snd s1"
    by (rule backing_write_returns[OF h1 h(2) h(3) c1]) (rule o2)
  then obtain s2 where
    w2: "backing_write OpAxisLabels
           (h5_create_dataset g (fst l) (pyval_shape (as_array v0)) (pyval_dtype (as_array v0)) None) s1 = (Inr (), s2)"
    and c2: "backing_contents s2 = Some c2" and d2: "snd s2 = snd s"
    using d1 by auto
  define c3 where "c3 = c2\<lparr>nodes := (nodes c2)(g @ [fst l] \<mapsto>
      Dataset (pyval_shape (as_array v0)) (pyval_dtype (as_array v0)) None
        (pyval_elems (as_array v0)))\<rparr>"
  have o3: "h5_write_dataset (g @ [fst l]) (pyval_elems (as_array v0)) c2 = Inr c3"
    by (simp add: h5_write_dataset_def c2_def c3_def)
  have h2: "d_backing_file (snd s2) = Some h" using h(1) d2 by simp
  have "\<exists>s'. backing_write OpAxisLabels
           (h5_write_dataset (g @ [fst l]) (pyval_elems (as_array v0))) s2 = (Inr (), s') \<and>
         backing_contents s' = Some c3 \<and> snd s' = snd s2"
    by (rule backing_write_returns[OF h2 h(2) h(3) c2]) (rule o3)
  then obtain s3 where
    w3: "backing_write OpAxisLabels
           (h5_write_dataset (g @ [fst l]) (pyval_elems (as_array v0))) s2 = (Inr (), s3)"
    and c3: "backing_contents s3 = Some c3" and d3: "snd s3 = snd s"
    using d2 by auto
  define c4 where "c4 = c3\<lparr>attrs := (attrs c3)((g @ [fst l], ''units'') \<mapsto> AttrStr (snd l))\<rparr>"
  have o4: "h5_set_attr (g @ [fst l]) ''units'' (AttrStr (snd l)) c3 = Inr c4"
    by (simp add: h5_set_attr_def c3_def c4_def)
  have h3: "d_backing_file (snd s3) = Some h" using h(1) d3 by simp
  have "\<exists>s'. backing_write OpAxisLabels
           (h5_set_attr (g @ [fst l]) ''units'' (AttrStr (snd l))) s3 = (Inr (), s') \<and>
         backing_contents s' = Some c4 \<and> snd s' = snd s3"
    by (rule backing_write_returns[OF h3 h(2) h(3) c3]) (rule o4)
  then obtain s4 where
    w4: "backing_write OpAxisLabels
           (h5_set_attr (g @ [fst l]) ''units'' (AttrStr (snd l))) s3 = (Inr (), s4)"
    and c4: "backing_contents s4 = Some c4" and d4: "snd s4 = snd s"
    using d3 by auto
  have g1: "d_group (snd s1) = Some g" using g(1) d1 by simp
  have "output_axis_labels_loop (l # rest) n entry s =
          output_axis_labels_loop rest (Suc n) entry s4"
    using w1 v0 sh g1 w2 w3 w4 by (simp add: andthen_def reading_def ret_def)
  moreover have "\<forall>p. p \<noteq> g @ [fst l] \<longrightarrow> nodes c4 p = nodes c p"
    by (simp add: c4_def c3_def c2_def c1_def)
  moreover have "nodes c4 (g @ [fst l]) \<noteq> None"
    by (simp add: c4_def c3_def)
  ultimately show ?thesis
    using c4 d4 by blast
qed

text \<open>The loop returns when every label can be written.\<close>

lemma axis_loop_returns:
  assumes "d_backing_file (snd s) = Some h" and "mode h \<noteq> ''r''"
    and "backing_contents s = Some c"
    and "d_group (snd s) = Some g" and "nodes c g = Some Group"
    and "nodes c entry \<noteq> None"
    and "distinct (map fst ls)"
    and "\<forall>l \<in> set ls. nodes c (g @ [fst l]) = None"
    and "\<forall>i < length ls. label_ok (snd s) (n + i) (fst (ls ! i))"
    and "is_open h"
  shows "\<exists>s' c'. output_axis_labels_loop ls n entry s = (Inr (), s') \<and>
           backing_contents s' = Some c' \<and> snd s' = snd s \<and> nodes c' entry \<noteq> None"
  using assms
proof (induction ls arbitrary: n s c)
  case Nil
  then show ?case by (simp add: ret_def)
next
  case (Cons l rest)
  have fresh: "nodes c (g @ [fst l]) = None" using Cons.prems(8) by simp
  have ok: "label_ok (snd s) n (fst l)" using Cons.prems(9) by fastforce
  from axis_loop_round[OF Cons.prems(1,2) Cons.prems(10) Cons.prems(3,4,5,6) fresh ok, of rest] obtain s4 c4 where
    eq: "output_axis_labels_loop (l # rest) n entry s =
           output_axis_labels_loop rest (Suc n) entry s4"
    and c4: "backing_contents s4 = Some c4" and d4: "snd s4 = snd s"
    and same: "\<And>p. p \<noteq> g @ [fst l] \<Longrightarrow> nodes c4 p = nodes c p"
    and new: "nodes c4 (g @ [fst l]) \<noteq> None"
    by blast
  have 1: "d_backing_file (snd s4) = Some h" using d4 Cons.prems(1) by simp
  have 4: "d_group (snd s4) = Some g" using d4 Cons.prems(4) by simp
  have 5: "nodes c4 g = Some Group" using same[of g] Cons.prems(5) by simp
  have 6: "nodes c4 entry \<noteq> None" using same[of entry] new Cons.prems(6) by (cases "entry = g @ [fst l]") auto
  have 7: "distinct (map fst rest)" using Cons.prems(7) by simp
  have 8: "\<forall>l' \<in> set rest. nodes c4 (g @ [fst l']) = None"
  proof
    fix l' assume m: "l' \<in> set rest"
    then have "fst l' \<in> set (map fst rest)" by simp
    moreover have "fst l \<notin> set (map fst rest)" using Cons.prems(7) by simp
    ultimately have "fst l' \<noteq> fst l" by metis
    with \<open>fst l' \<noteq> fst l\<close> show "nodes c4 (g @ [fst l']) = None"
      using same[of "g @ [fst l']"] Cons.prems(8) m by simp
  qed
  have 9: "\<forall>i < length rest. label_ok (snd s4) (Suc n + i) (fst (rest ! i))"
  proof (intro allI impI)
    fix i assume "i < length rest"
    then have "label_ok (snd s) (n + Suc i) (fst ((l # rest) ! Suc i))"
      using Cons.prems(9) by (metis Suc_less_eq length_Cons)
    then show "label_ok (snd s4) (Suc n + i) (fst (rest ! i))"
      using d4 by simp
  qed
  from Cons.IH[OF 1 Cons.prems(2) c4 4 5 6 7 8 9 Cons.prems(10)] show ?case
    using eq d4 by auto
qed

lemma peaks_ready_contents:
  "backing_contents peaks_ready =
     Some \<lparr>nodes = [[] \<mapsto> Group, [''1-Peaks''] \<mapsto> Group,
                   [''1-Peaks'', ''data''] \<mapsto> Dataset [2, 3] ''float32'' None (replicate 6 0)],
           attrs = [([''1-Peaks''], ''NX_class'') \<mapsto> AttrStr ''NXdata'',
                    ([''1-Peaks''], ''signal'') \<mapsto> AttrStr ''data'']\<rparr>"
  unfolding peaks_ready_def
  by (simp add: run_defs peaks_defs)

text \<open>
  C9, as the code has it. Let the backing file be open for writing and hold the entry
  group and the group \<^verbatim>\<open>data.group\<close>, let the label names be distinct and not taken in
  that group, and let every label be writable: its meta data value is an array or a
  plain list, of an element type other than numpy's objects, or there is no such
  value and the shape has the axis. Then \<^verbatim>\<open>__output_axis_labels\<close> returns, and the
  group holds for every axis label an array named after the label: the meta data
  value of that name as it is when it is an array, the array \<^verbatim>\<open>np.array\<close> makes of
  it when it is a plain list (for integers that fit 64 signed bits: the same
  elements, as \<^verbatim>\<open>int64\<close>), and without such a value the indices
  \<open>0, ..., extent - 1\<close> of the axis. The array carries the attribute \<^verbatim>\<open>units\<close> of the
  label, and the attribute \<^verbatim>\<open>axes\<close> of the entry group is the list of the label names
  in their order.
\<close>

theorem output_axis_labels_total:
  assumes "d_backing_file (snd s) = Some h" and "mode h \<noteq> ''r''"
    and "backing_contents s = Some c"
    and "d_group (snd s) = Some g" and "nodes c g = Some Group"
    and "nodes c entry \<noteq> None"
    and "distinct (map fst (info_axis_labels (snd s)))"
    and "\<forall>l \<in> set (info_axis_labels (snd s)). nodes c (g @ [fst l]) = None"
    and "\<forall>i < length (info_axis_labels (snd s)).
           label_ok (snd s) i (fst (info_axis_labels (snd s) ! i))"
    and "is_open h"
  shows "\<exists>s' c'. output_axis_labels entry s = (Inr (), s') \<and> backing_contents s' = Some c' \<and>
           attrs c' (entry, ''axes'') = Some (AttrStrs (map fst (info_axis_labels (snd s)))) \<and>
           (\<forall>i < length (info_axis_labels (snd s)).
              nodes c' (g @ [fst (info_axis_labels (snd s) ! i)]) =
                Some (Dataset
                  (pyval_shape (spec_label_array (snd s) i (fst (info_axis_labels (snd s) ! i))))
                  (pyval_dtype (spec_label_array (snd s) i (fst (info_axis_labels (snd s) ! i))))
                  None
                  (pyval_elems (spec_label_array (snd s) i (fst (info_axis_labels (snd s) ! i))))) \<and>
              attrs c' (g @ [fst (info_axis_labels (snd s) ! i)], ''units'') =
                Some (AttrStr (snd (info_axis_labels (snd s) ! i))))"
proof -
  obtain s1 where b1: "barrier s = (Inr (), s1)"
    by (simp add: barrier_def)
  note k1 = barrier_contents[OF b1]
  have 1: "d_backing_file (snd s1) = Some h" using k1 assms(1) by simp
  have 3: "backing_contents s1 = Some c" using k1 assms(3) by simp
  have 4: "d_group (snd s1) = Some g" using k1 assms(4) by simp
  have 7: "distinct (map fst (info_axis_labels (snd s1)))" using k1 assms(7) by simp
  have 8: "\<forall>l \<in> set (info_axis_labels (snd s1)). nodes c (g @ [fst l]) = None"
    using k1 assms(8) by simp
  have 9: "\<forall>i < length (info_axis_labels (snd s1)).
           label_ok (snd s1) (0 + i) (fst (info_axis_labels (snd s1) ! i))"
    using k1 assms(9) by simp
  from axis_loop_returns[OF 1 assms(2) 3 4 assms(5,6) 7 8 9 assms(10)] obtain s2 c2 where
    loop: "output_axis_labels_loop (info_axis_labels (snd s1)) 0 entry s1 = (Inr (), s2)"
    and c2: "backing_contents s2 = Some c2" and d2: "snd s2 = snd s1"
    and e2: "nodes c2 entry \<noteq> None"
    by blast
  have h2: "d_backing_file (snd s2) = Some h" using 1 d2 by simp
  have o: "h5_set_attr entry ''axes'' (AttrStrs (map fst (info_axis_labels (snd s1)))) c2 =
      Inr (c2\<lparr>attrs := (attrs c2)((entry, ''axes'') \<mapsto>
                AttrStrs (map fst (info_axis_labels (snd s1))))\<rparr>)"
    using e2 by (simp add: h5_set_attr_def)
  have "\<exists>s'. backing_write OpAxisLabels
           (h5_set_attr entry ''axes'' (AttrStrs (map fst (info_axis_labels (snd s1))))) s2
             = (Inr (), s') \<and>
         backing_contents s' = Some (c2\<lparr>attrs := (attrs c2)((entry, ''axes'') \<mapsto>
                AttrStrs (map fst (info_axis_labels (snd s1))))\<rparr>) \<and> snd s' = snd s2"
    by (rule backing_write_returns[OF h2 assms(2) assms(10) c2]) (rule o)
  then obtain s3 where
    w: "backing_write OpAxisLabels
           (h5_set_attr entry ''axes'' (AttrStrs (map fst (info_axis_labels (snd s1))))) s2
             = (Inr (), s3)"
    by blast
  obtain s' where b2: "barrier s3 = (Inr (), s')"
    by (simp add: barrier_def)
  have run: "output_axis_labels entry s = (Inr (), s')"
    using b1 loop w b2 by (simp add: output_axis_labels_def andthen_def reading_def)
  from output_axis_labels_writes[OF run assms(4)] run show ?thesis
    by blast
qed

theorem output_axis_labels_total_witness:
  "\<exists>s' c. output_axis_labels [''1-Peaks''] peaks_ready = (Inr (), s') \<and>
       backing_contents s' = Some c \<and>
       attrs c ([''1-Peaks''], ''axes'') = Some (AttrStrs [''frames'', ''position'']) \<and>
       nodes c [''1-Peaks'', ''frames''] = Some (Dataset [2] ''int64'' None [0, 1]) \<and>
       attrs c ([''1-Peaks'', ''frames''], ''units'') = Some (AttrStr ''index'') \<and>
       nodes c [''1-Peaks'', ''position''] = Some (Dataset [3] ''int64'' None [10, 20, 30]) \<and>
       attrs c ([''1-Peaks'', ''position''], ''units'') = Some (AttrStr ''idx'')"
proof -
  let ?c = "\<lparr>nodes = [[] \<mapsto> Group, [''1-Peaks''] \<mapsto> Group,
                   [''1-Peaks'', ''data''] \<mapsto> Dataset [2, 3] ''float32'' None (replicate 6 0)],
           attrs = [([''1-Peaks''], ''NX_class'') \<mapsto> AttrStr ''NXdata'',
                    ([''1-Peaks''], ''signal'') \<mapsto> AttrStr ''data'']\<rparr>"
  have 1: "d_backing_file (snd peaks_ready) = Some \<lparr>filename = ''/out/run42.h5'', mode = ''r+'', is_open = True\<rparr>"
    by (rule peaks_ready_handle)
  have 2: "mode \<lparr>filename = ''/out/run42.h5'', mode = ''r+'', is_open = True\<rparr> \<noteq> ''r''"
    by simp
  have 4: "d_group (snd peaks_ready) = Some [''1-Peaks'']"
    by (simp add: peaks_ready_data)
  have 5: "nodes ?c [''1-Peaks''] = Some Group"
    by simp
  have 6: "nodes ?c [''1-Peaks''] \<noteq> None"
    by simp
  have 7: "distinct (map fst (info_axis_labels (snd peaks_ready)))"
    by (simp add: peaks_ready_data)
  have 8: "\<forall>l \<in> set (info_axis_labels (snd peaks_ready)). nodes ?c ([''1-Peaks''] @ [fst l]) = None"
    by (simp add: peaks_ready_data)
  have 9: "\<forall>i < length (info_axis_labels (snd peaks_ready)).
           label_ok (snd peaks_ready) i (fst (info_axis_labels (snd peaks_ready) ! i))"
    by (simp add: peaks_ready_data label_ok_def less_Suc_eq np_dtype_def fits_int64_def)
  have 10: "is_open \<lparr>filename = ''/out/run42.h5'', mode = ''r+'', is_open = True\<rparr>"
    by simp
  have r: "[0..<2] = [0, Suc 0]"
    by (simp add: upt_rec)
  from output_axis_labels_total[OF 1 2 peaks_ready_contents 4 5 6 7 8 9 10] obtain s' c where
    run: "output_axis_labels [''1-Peaks''] peaks_ready = (Inr (), s')" and
    c: "backing_contents s' = Some c" and
    axes: "attrs c ([''1-Peaks''], ''axes'') =
             Some (AttrStrs (map fst (info_axis_labels (snd peaks_ready))))" and
    each: "\<And>i. i < length (info_axis_labels (snd peaks_ready)) \<Longrightarrow>
              nodes c ([''1-Peaks''] @ [fst (info_axis_labels (snd peaks_ready) ! i)]) =
                Some (Dataset
                  (pyval_shape (spec_label_array (snd peaks_ready) i
                     (fst (info_axis_labels (snd peaks_ready) ! i))))
                  (pyval_dtype (spec_label_array (snd peaks_ready) i
                     (fst (info_axis_labels (snd peaks_ready) ! i))))
                  None
                  (pyval_elems (spec_label_array (snd peaks_ready) i
                     (fst (info_axis_labels (snd peaks_ready) ! i))))) \<and>
              attrs c ([''1-Peaks''] @ [fst (info_axis_labels (snd peaks_ready) ! i)], ''units'') =
                Some (AttrStr (snd (info_axis_labels (snd peaks_ready) ! i)))"
    by blast
  have np: "np_dtype [10, 20, 30] = ''int64''" "np_elems [10, 20, 30] = [10, 20, 30]"
    by (simp_all add: np_elems_def np_dtype_def fits_int64_def)
  from each[of 0] each[of 1] axes c run show ?thesis
    by (simp add: peaks_ready_data spec_label_array_def r np)
qed


text \<open>
  C9 as stated fails for a meta data value that is neither a list nor an array. With
  the number 7 under the label name \<^verbatim>\<open>position\<close>, \<^verbatim>\<open>__output_axis_labels\<close> raises
  \<^verbatim>\<open>AttributeError\<close> at the read of \<^verbatim>\<open>mData.shape\<close>, and the group holds no array of
  that name.
\<close>

theorem output_axis_labels_scalar_raises:
  "map_of (d_meta_data (snd peaks_scalar)) ''position'' = Some (PyScalar 7) \<and>
   fst (output_axis_labels [''1-Peaks''] peaks_scalar) = Inl AttributeError \<and>
   nodes (the (backing_contents (snd (output_axis_labels [''1-Peaks''] peaks_scalar))))
     [''1-Peaks'', ''position''] = None"
  by code_simp

end
